theory Spec2Isabelle
  imports Complex_Main "HOL-Library.Sublist" "HOL-Library.Multiset"
begin

section \<open>Data model\<close>

text \<open>
  The records follow the TypeScript interfaces of the income, expense and transaction
  models. A JavaScript \<open>number\<close> that is only added, subtracted, divided and compared is a
  \<open>real\<close> (rounding is not modelled). A date string is only ever read through
  \<open>new Date(s)\<close>, so it is represented by its time value: milliseconds since
  1970-01-01T00:00Z. Strings are lists of 8-bit characters (the Latin-1 code units).
\<close>

datatype MimeType = ImageJpeg | ImageJpg | ImagePng | ApplicationPdf

record Document =
  doc_id :: string
  filename :: string
  url :: string
  doc_size :: nat
  mimeType :: MimeType
  uploadedAt :: string

record Income =
  i_id :: string
  i_amount :: real
  i_label :: string
  i_description :: "string option"
  i_category :: string
  i_date :: int
  supportingDocuments :: "Document list option"
  i_createdAt :: string
  i_updatedAt :: string

record Expense =
  e_id :: string
  e_amount :: real
  e_label :: string
  e_description :: "string option"
  e_category :: string
  e_date :: int
  receipts :: "Document list option"
  e_createdAt :: string
  e_updatedAt :: string

datatype TransactionType = income | expense

record Transaction =
  id' :: string
  amount :: real
  label :: string
  description :: "string option"
  category :: string
  date :: int
  type' :: TransactionType
  createdAt :: string
  updatedAt :: string
  documents :: "Document list"

datatype TypeFilter = All | Only TransactionType

text \<open>
  An amount bound of the filter object is what \<open>parseFloat\<close> made of the text typed into the
  filter screen: a number, an infinity, or not-a-number (for a text such as \<open>.\<close>).
\<close>

datatype number = Not_a_Number | Minus_Infinity | Plus_Infinity | Finite real

record TransactionFilters =
  searchQuery :: "string option"
  ftype :: "TypeFilter option"
  categories :: "string list option"
  dateFrom :: "int option"
  dateTo :: "int option"
  amountMin :: "number option"
  amountMax :: "number option"

record TransactionSummaryData =
  totalIncome :: real
  totalExpenses :: real
  netBalance :: real
  transactionCount :: nat
  incomeCount :: nat
  expenseCount :: nat
  averageIncome :: real
  averageExpense :: real

definition createTransactionFromIncome :: "Income \<Rightarrow> Transaction" where
  "createTransactionFromIncome i =
     \<lparr> id' = i_id i, amount = i_amount i, label = i_label i, description = i_description i,
       category = i_category i, date = i_date i, type' = income,
       createdAt = i_createdAt i, updatedAt = i_updatedAt i,
       documents = (case supportingDocuments i of Some ds \<Rightarrow> ds | None \<Rightarrow> []) \<rparr>"

definition createTransactionFromExpense :: "Expense \<Rightarrow> Transaction" where
  "createTransactionFromExpense e =
     \<lparr> id' = e_id e, amount = e_amount e, label = e_label e, description = e_description e,
       category = e_category e, date = e_date e, type' = expense,
       createdAt = e_createdAt e, updatedAt = e_updatedAt e,
       documents = (case receipts e of Some ds \<Rightarrow> ds | None \<Rightarrow> []) \<rparr>"

section \<open>The JavaScript library operations the code calls\<close>

subsection \<open>Strings\<close>

text \<open>
  \<open>String.prototype.toLowerCase\<close> depends on the whole string in general, and can change
  its length. The search filter below therefore takes the lowercasing function as an
  input. \<open>latin1_toLowerCase\<close> is that function on strings of Latin-1 code units, where it
  works character by character: \<open>A\<close>..\<open>Z\<close> and the accented capitals U+00C0..U+00DE (without
  the multiplication sign U+00D7) get bit \<open>0x20\<close> set, and every other code unit is
  unchanged.
\<close>

fun lower_char :: "char \<Rightarrow> char" where
  "lower_char (Char b0 b1 b2 b3 b4 b5 b6 b7) =
     (let n = (of_char (Char b0 b1 b2 b3 b4 b5 b6 b7) :: nat)
      in if (65 \<le> n \<and> n \<le> 90) \<or> (192 \<le> n \<and> n \<le> 222 \<and> n \<noteq> 215)
         then Char b0 b1 b2 b3 b4 True b6 b7
         else Char b0 b1 b2 b3 b4 b5 b6 b7)"

definition latin1_toLowerCase :: "string \<Rightarrow> string" where
  "latin1_toLowerCase s = map lower_char s"

text \<open>
  \<open>String.prototype.toUpperCase\<close> on strings of Latin-1 code units, where the result is
  again such a string: \<open>a\<close>..\<open>z\<close> and the accented small letters U+00E0..U+00FE (without the
  division sign U+00F7) get bit \<open>0x20\<close> cleared, the sharp s U+00DF becomes \<open>SS\<close>, and the
  micro sign U+00B5 and U+00FF, whose capitals lie outside Latin-1, have no result here.
\<close>

fun upper_char :: "char \<Rightarrow> string option" where
  "upper_char (Char b0 b1 b2 b3 b4 b5 b6 b7) =
     (let n = (of_char (Char b0 b1 b2 b3 b4 b5 b6 b7) :: nat)
      in if (97 \<le> n \<and> n \<le> 122) \<or> (224 \<le> n \<and> n \<le> 254 \<and> n \<noteq> 247)
         then Some [Char b0 b1 b2 b3 b4 False b6 b7]
         else if n = 223 then Some ''SS''
         else if n = 181 \<or> n = 255 then None
         else Some [Char b0 b1 b2 b3 b4 b5 b6 b7])"

fun latin1_toUpperCase :: "string \<Rightarrow> string option" where
  "latin1_toUpperCase [] = Some []"
| "latin1_toUpperCase (c # cs) =
     (case upper_char c of
        None \<Rightarrow> None
      | Some u \<Rightarrow> (case latin1_toUpperCase cs of None \<Rightarrow> None | Some us \<Rightarrow> Some (u @ us)))"

text \<open>\<open>s.includes(q)\<close>: \<open>q\<close> occurs in \<open>s\<close> as a contiguous substring.\<close>

fun includes_str :: "'a list \<Rightarrow> 'a list \<Rightarrow> bool" where
  "includes_str [] q = (q = [])"
| "includes_str (c # cs) q = (prefix q (c # cs) \<or> includes_str cs q)"

text \<open>
  The white space of \<open>String.prototype.trim\<close> and of the regular-expression class
  \<open>\s\<close>, among the Latin-1 code units: tab, line feed, vertical tab, form feed, carriage
  return, space and no-break space.
\<close>

definition is_space :: "char \<Rightarrow> bool" where
  "is_space c = ((of_char c :: nat) \<in> {9, 10, 11, 12, 13, 32, 160})"

definition trim :: "string \<Rightarrow> string" where
  "trim s = rev (dropWhile is_space (rev (dropWhile is_space s)))"

definition is_alnum :: "char \<Rightarrow> bool" where
  "is_alnum c = (let n = (of_char c :: nat)
                 in (97 \<le> n \<and> n \<le> 122) \<or> (65 \<le> n \<and> n \<le> 90) \<or> (48 \<le> n \<and> n \<le> 57))"

subsection \<open>Dates\<close>

text \<open>
  A time value is a number of milliseconds since the epoch, in UTC. \<open>getMonth\<close> and
  \<open>getFullYear\<close> read the local calendar: the time value is shifted by the device's
  offset from UTC (\<open>tz\<close>, in minutes, positive east of Greenwich) before the day number is
  converted to a civil date. \<open>utc_midnight y m d\<close> is the time value of the date-only ISO
  string \<open>y-m-d\<close>, which \<open>new Date\<close> reads as midnight UTC.
\<close>

definition msPerDay :: int where
  "msPerDay = 86400000"

definition days_from_civil :: "int \<Rightarrow> int \<Rightarrow> int \<Rightarrow> int" where
  "days_from_civil y m d =
     (let y1 = (if m \<le> 2 then y - 1 else y);
          era = y1 div 400;
          yoe = y1 - era * 400;
          doy = (153 * (if m > 2 then m - 3 else m + 9) + 2) div 5 + d - 1;
          doe = yoe * 365 + yoe div 4 - yoe div 100 + doy
      in era * 146097 + doe - 719468)"

definition civil_from_days :: "int \<Rightarrow> int \<times> int \<times> int" where
  "civil_from_days z0 =
     (let z = z0 + 719468;
          era = z div 146097;
          doe = z - era * 146097;
          yoe = (doe - doe div 1460 + doe div 36524 - doe div 146096) div 365;
          doy = doe - (365 * yoe + yoe div 4 - yoe div 100);
          mp = (5 * doy + 2) div 153;
          d = doy - (153 * mp + 2) div 5 + 1;
          m = (if mp < 10 then mp + 3 else mp - 9)
      in (if m \<le> 2 then yoe + era * 400 + 1 else yoe + era * 400, m, d))"

definition utc_midnight :: "int \<Rightarrow> int \<Rightarrow> int \<Rightarrow> int" where
  "utc_midnight y m d = days_from_civil y m d * msPerDay"

definition localDay :: "int \<Rightarrow> int \<Rightarrow> int" where
  "localDay tz t = (t + tz * 60000) div msPerDay"

definition getFullYear :: "int \<Rightarrow> int \<Rightarrow> int" where
  "getFullYear tz t = fst (civil_from_days (localDay tz t))"

definition getMonth :: "int \<Rightarrow> int \<Rightarrow> int" where
  "getMonth tz t = fst (snd (civil_from_days (localDay tz t))) - 1"

subsection \<open>Sorting\<close>

text \<open>
  \<open>Array.prototype.sort\<close> with a comparator is a stable sort: an element goes before
  another when the comparator, applied to the pair, is negative, and elements that
  compare equal keep their order. Insertion from the right realises this.
\<close>

fun insert_by :: "('a \<Rightarrow> 'a \<Rightarrow> int) \<Rightarrow> 'a \<Rightarrow> 'a list \<Rightarrow> 'a list" where
  "insert_by cmp x [] = [x]"
| "insert_by cmp x (y # ys) =
     (if cmp x y \<le> 0 then x # y # ys else y # insert_by cmp x ys)"

fun sort_by :: "('a \<Rightarrow> 'a \<Rightarrow> int) \<Rightarrow> 'a list \<Rightarrow> 'a list" where
  "sort_by cmp [] = []"
| "sort_by cmp (x # xs) = insert_by cmp x (sort_by cmp xs)"

subsection \<open>Comparing an amount with a bound\<close>

text \<open>
  \<open>a < b\<close> and \<open>a > b\<close> for an amount \<open>a\<close> and a bound \<open>b\<close>: every comparison with
  not-a-number is false.
\<close>

fun less_than :: "real \<Rightarrow> number \<Rightarrow> bool" where
  "less_than a Not_a_Number = False"
| "less_than a Minus_Infinity = False"
| "less_than a Plus_Infinity = True"
| "less_than a (Finite b) = (a < b)"

fun greater_than :: "real \<Rightarrow> number \<Rightarrow> bool" where
  "greater_than a Not_a_Number = False"
| "greater_than a Minus_Infinity = True"
| "greater_than a Plus_Infinity = False"
| "greater_than a (Finite b) = (a > b)"

section \<open>The transaction list hook\<close>

text \<open>
  Each \<open>useMemo\<close> value of \<open>useTransactionList\<close> is a function of its dependencies. The
  wall clock and the device's time zone are inputs: \<open>now\<close> is the time value of
  \<open>new Date()\<close>.
\<close>

definition allTransactions :: "Income list \<Rightarrow> Expense list \<Rightarrow> Transaction list" where
  "allTransactions incomes expenses =
     (let incomeTransactions = map createTransactionFromIncome incomes;
          expenseTransactions = map createTransactionFromExpense expenses;
          combined = incomeTransactions @ expenseTransactions
      in sort_by (\<lambda>a b. date b - date a) combined)"

text \<open>
  The filter callback. An absent filter field is \<open>None\<close>; an empty search string and an
  empty category list are falsy and switch their test off, as in the source. For the date
  bounds \<open>None\<close> also stands for a string that is empty or not a date: no comparison with
  it excludes a transaction. An amount bound is given as soon as it is not \<open>undefined\<close>,
  also when it is not-a-number. The first argument is the engine's
  \<open>String.prototype.toLowerCase\<close>.
\<close>

definition keeps ::
    "(string \<Rightarrow> string) \<Rightarrow> TransactionFilters \<Rightarrow> Transaction \<Rightarrow> bool" where
  "keeps toLowerCase filters transaction =
     (if (case searchQuery filters of
            None \<Rightarrow> False
          | Some q \<Rightarrow> q \<noteq> [] \<and>
              \<not> includes_str (toLowerCase (label transaction @ '' '' @
                             (case description transaction of None \<Rightarrow> [] | Some d \<Rightarrow> d)))
                          (toLowerCase q))
      then False
      else if (case ftype filters of
                 None \<Rightarrow> False
               | Some All \<Rightarrow> False
               | Some (Only ty) \<Rightarrow> type' transaction \<noteq> ty)
      then False
      else if (case categories filters of
                 None \<Rightarrow> False
               | Some cs \<Rightarrow> cs \<noteq> [] \<and> category transaction \<notin> set cs)
      then False
      else if (case dateFrom filters of None \<Rightarrow> False | Some d \<Rightarrow> date transaction < d)
      then False
      else if (case dateTo filters of None \<Rightarrow> False | Some d \<Rightarrow> date transaction > d)
      then False
      else if (case amountMin filters of
                 None \<Rightarrow> False
               | Some b \<Rightarrow> less_than (amount transaction) b)
      then False
      else if (case amountMax filters of
                 None \<Rightarrow> False
               | Some b \<Rightarrow> greater_than (amount transaction) b)
      then False
      else True)"

definition filteredTransactions ::
    "(string \<Rightarrow> string) \<Rightarrow> TransactionFilters \<Rightarrow> Transaction list \<Rightarrow> Transaction list" where
  "filteredTransactions toLowerCase filters all_transactions =
     filter (keeps toLowerCase filters) all_transactions"

text \<open>
  The three summaries run the same statements on a list of transactions; \<open>summarise\<close> is
  that common body, from the two type filters to the returned object.
\<close>

definition summarise :: "Transaction list \<Rightarrow> TransactionSummaryData" where
  "summarise transactions =
     (let incomeTransactions = filter (\<lambda>t. type' t = income) transactions;
          expenseTransactions = filter (\<lambda>t. type' t = expense) transactions;
          total_income = foldl (\<lambda>sum t. sum + amount t) 0 incomeTransactions;
          total_expenses = foldl (\<lambda>sum t. sum + amount t) 0 expenseTransactions
      in \<lparr> totalIncome = total_income,
           totalExpenses = total_expenses,
           netBalance = total_income - total_expenses,
           transactionCount = length transactions,
           incomeCount = length incomeTransactions,
           expenseCount = length expenseTransactions,
           averageIncome = (if length incomeTransactions > 0
                            then total_income / real (length incomeTransactions) else 0),
           averageExpense = (if length expenseTransactions > 0
                             then total_expenses / real (length expenseTransactions) else 0) \<rparr>)"

definition summaryData :: "Transaction list \<Rightarrow> TransactionSummaryData" where
  "summaryData filtered = summarise filtered"

definition monthlyData :: "int \<Rightarrow> int \<Rightarrow> Transaction list \<Rightarrow> TransactionSummaryData" where
  "monthlyData tz now filtered =
     (let currentMonth = getMonth tz now;
          currentYear = getFullYear tz now;
          monthlyTransactions =
            filter (\<lambda>transaction. getMonth tz (date transaction) = currentMonth \<and>
                                    getFullYear tz (date transaction) = currentYear) filtered
      in summarise monthlyTransactions)"

definition yearToDateData :: "int \<Rightarrow> int \<Rightarrow> Transaction list \<Rightarrow> TransactionSummaryData" where
  "yearToDateData tz now filtered =
     (let currentYear = getFullYear tz now;
          ytdTransactions =
            filter (\<lambda>transaction. getFullYear tz (date transaction) = currentYear) filtered
      in summarise ytdTransactions)"

section \<open>Validation\<close>

subsection \<open>Numbers as they print\<close>

text \<open>
  The amount validators inspect \<open>amount.toString()\<close>, so here a JavaScript number is
  represented by the data that \<open>Number::toString\<close> is defined on: not-a-number, an
  infinity, a zero, or a sign with the shortest decimal digits \<open>d\<^sub>1 \<dots> d\<^sub>k\<close> and the position
  \<open>n\<close> of the decimal point, standing for \<open>0.d\<^sub>1\<dots>d\<^sub>k \<times> 10\<^sup>n\<close>. The digit list of a number has
  no leading and no trailing zero, and a double has at most 17 significant digits.
\<close>

datatype jsnumber =
    NaN
  | Infinity bool
  | Zero bool
  | Decimal bool "nat list" int

fun well_formed :: "jsnumber \<Rightarrow> bool" where
  "well_formed (Decimal neg ds n) =
     (ds \<noteq> [] \<and> list_all (\<lambda>d. d < 10) ds \<and> hd ds \<noteq> 0 \<and> last ds \<noteq> 0 \<and> length ds \<le> 17)"
| "well_formed _ = True"

text \<open>The number of digits after the decimal point in the plain decimal expansion.\<close>

fun fraction_digits :: "jsnumber \<Rightarrow> nat" where
  "fraction_digits (Decimal neg ds n) = nat (int (length ds) - n)"
| "fraction_digits _ = 0"

definition digit_char :: "nat \<Rightarrow> char" where
  "digit_char d = ''0123456789'' ! d"

function digits_of :: "nat \<Rightarrow> string" where
  "digits_of n = (if n < 10 then [digit_char n] else digits_of (n div 10) @ [digit_char (n mod 10)])"
  by pat_completeness auto
termination
  by (relation "measure (\<lambda>n. n)") auto

text \<open>
  \<open>Number::toString\<close> in radix 10: plain notation when the decimal point lies within
  \<open>-6 < n \<le> 21\<close>, exponent notation otherwise.
\<close>

fun toString :: "jsnumber \<Rightarrow> string" where
  "toString NaN = ''NaN''"
| "toString (Infinity neg) = (if neg then ''-Infinity'' else ''Infinity'')"
| "toString (Zero neg) = ''0''"
| "toString (Decimal neg ds n) =
     (if neg then ''-'' else []) @
     (let k = int (length ds); s = map digit_char ds
      in if k \<le> n \<and> n \<le> 21 then s @ replicate (nat (n - k)) (CHR ''0'')
         else if 0 < n \<and> n \<le> 21 then take (nat n) s @ ''.'' @ drop (nat n) s
         else if - 6 < n \<and> n \<le> 0 then ''0.'' @ replicate (nat (- n)) (CHR ''0'') @ s
         else (let e = n - 1;
                   exponent = (if e < 0 then ''-'' else ''+'') @ digits_of (nat \<bar>e\<bar>)
               in if k = 1 then s @ ''e'' @ exponent
                  else take 1 s @ ''.'' @ drop 1 s @ ''e'' @ exponent))"

text \<open>\<open>x < 0\<close>, \<open>x <= 0\<close>, \<open>Number.isFinite(x)\<close> and \<open>isNaN(x)\<close>.\<close>

fun less_zero :: "jsnumber \<Rightarrow> bool" where
  "less_zero (Infinity neg) = neg"
| "less_zero (Decimal neg ds n) = neg"
| "less_zero _ = False"

fun less_eq_zero :: "jsnumber \<Rightarrow> bool" where
  "less_eq_zero (Infinity neg) = neg"
| "less_eq_zero (Decimal neg ds n) = neg"
| "less_eq_zero (Zero neg) = True"
| "less_eq_zero NaN = False"

fun isFinite :: "jsnumber \<Rightarrow> bool" where
  "isFinite (Zero neg) = True"
| "isFinite (Decimal neg ds n) = True"
| "isFinite _ = False"

fun isNaN :: "jsnumber \<Rightarrow> bool" where
  "isNaN NaN = True"
| "isNaN _ = False"

text \<open>\<open>s.split(sep)\<close> for a one-character separator.\<close>

fun split :: "char \<Rightarrow> string \<Rightarrow> string list" where
  "split sep [] = [[]]"
| "split sep (c # cs) =
     (if c = sep then [] # split sep cs
      else (case split sep cs of [] \<Rightarrow> [[c]] | p # ps \<Rightarrow> (c # p) # ps))"

text \<open>\<open>(amount.toString().split('.')[1] || '').length\<close>\<close>

definition decimalPlaces :: "jsnumber \<Rightarrow> nat" where
  "decimalPlaces amt =
     length (case drop 1 (split (CHR ''.'') (toString amt)) of [] \<Rightarrow> [] | p # ps \<Rightarrow> p)"

subsection \<open>Expense validation\<close>

record ValidationResult =
  isValid :: bool
  error :: "string option"

definition valid :: ValidationResult where
  "valid = \<lparr> isValid = True, error = None \<rparr>"

definition invalid :: "string \<Rightarrow> ValidationResult" where
  "invalid msg = \<lparr> isValid = False, error = Some msg \<rparr>"

definition validateAmount :: "jsnumber \<Rightarrow> ValidationResult" where
  "validateAmount amt =
     (if less_zero amt then invalid ''Amount cannot be negative''
      else if \<not> isFinite amt then invalid ''Amount must be a valid number''
      else if decimalPlaces amt > 2
           then invalid ''Amount cannot have more than 2 decimal places''
      else valid)"

text \<open>
  The regular expression \<open>/^[a-zA-Z0-9\s]+$/\<close>: one or more characters, each an ASCII
  letter, a digit or white space.
\<close>

definition matches_name_pattern :: "string \<Rightarrow> bool" where
  "matches_name_pattern s = (s \<noteq> [] \<and> list_all (\<lambda>c. is_alnum c \<or> is_space c) s)"

definition validateCategoryName :: "string \<Rightarrow> string list \<Rightarrow> ValidationResult" where
  "validateCategoryName name existingCategories =
     (if name = [] \<or> length (trim name) = 0 then invalid ''Category name is required''
      else if trim name \<noteq> name \<or> length (trim name) = 0
           then invalid ''Category name cannot be only spaces''
      else if length name > 15 then invalid ''Category name cannot exceed 15 characters''
      else if \<not> matches_name_pattern name
           then invalid ''Category name can only contain alphanumeric characters and spaces''
      else if list_ex (\<lambda>existing. existing = name) existingCategories
           then invalid ''Category name already exists (case-sensitive)''
      else valid)"

subsection \<open>Income validation\<close>

record IncomeValidationError =
  field :: string
  message :: string

text \<open>
  The income validator takes a number or a string; a string goes through \<open>parseFloat\<close>,
  which is a parameter of the model.
\<close>

datatype amount_input = Num jsnumber | Str string

definition income_validateAmount ::
    "(string \<Rightarrow> jsnumber) \<Rightarrow> amount_input \<Rightarrow> IncomeValidationError list" where
  "income_validateAmount parseFloat amt =
     (if (case amt of Num x \<Rightarrow> isNaN x | Str s \<Rightarrow> s = [])
      then [\<lparr> field = ''amount'', message = ''Amount is required'' \<rparr>]
      else
        (let numAmount = (case amt of Str s \<Rightarrow> parseFloat s | Num x \<Rightarrow> x);
             errors1 = (if isNaN numAmount \<or> less_eq_zero numAmount
                        then [\<lparr> field = ''amount'', message = ''Amount must be positive'' \<rparr>]
                        else []);
             errors2 = (if decimalPlaces numAmount > 2
                        then [\<lparr> field = ''amount'',
                                message = ''Amount can have maximum 2 decimal places'' \<rparr>]
                        else [])
         in errors1 @ errors2))"

definition validateCategory :: "string \<Rightarrow> string list \<Rightarrow> IncomeValidationError list" where
  "validateCategory category_name existingCategories =
     (if category_name = [] \<or> length (trim category_name) = 0
      then [\<lparr> field = ''category'', message = ''Category is required'' \<rparr>]
      else
        (if length category_name > 15
         then [\<lparr> field = ''category'', message = ''Category name cannot exceed 15 characters'' \<rparr>]
         else []) @
        (if \<not> matches_name_pattern category_name
         then [\<lparr> field = ''category'',
                 message = ''Category name must contain only alphanumeric characters and spaces'' \<rparr>]
         else []) @
        (if category_name \<in> set existingCategories
         then [\<lparr> field = ''category'', message = ''Category name already exists'' \<rparr>]
         else []))"

section \<open>Categories and their deletion\<close>

record Category =
  c_id :: string
  c_name :: string
  color :: string
  isDefault :: bool
  c_createdAt :: string
  c_updatedAt :: string

text \<open>
  The remote document database: one list of documents per collection, a document's id
  being the id of the record. An expense or an income refers to its category by name.
\<close>

record firestore =
  categories_coll :: "Category list"
  expenses_coll :: "Expense list"
  incomes_coll :: "Income list"

text \<open>
  A remote call either succeeds or throws; the model takes the outcome as an input:
  \<open>None\<close> for success, \<open>Some m\<close> for an error whose message is \<open>m\<close>.
  \<open>CategoryServiceImpl.deleteCategory\<close> deletes the category's document and nothing else.
\<close>

definition service_deleteCategory ::
    "string option \<Rightarrow> string \<Rightarrow> firestore \<Rightarrow> string + firestore" where
  "service_deleteCategory failure cid db =
     (case failure of
        Some m \<Rightarrow> Inl m
      | None \<Rightarrow> Inr (db \<lparr> categories_coll := filter (\<lambda>c. c_id c \<noteq> cid) (categories_coll db) \<rparr>))"

text \<open>The state of the \<open>useCategories\<close> hook that \<open>deleteCategory\<close> reads and writes.\<close>

record categories_state =
  hook_categories :: "Category list"
  isDeleting :: "string option"
  hook_error :: "string option"

definition deleteCategory ::
    "string option \<Rightarrow> string \<Rightarrow> categories_state \<times> firestore
       \<Rightarrow> bool \<times> categories_state \<times> firestore" where
  "deleteCategory failure categoryId = (\<lambda>(st, db).
     (case find (\<lambda>cat. c_id cat = categoryId) (hook_categories st) of
        None \<Rightarrow> (False, st \<lparr> hook_error := Some ''Category not found'' \<rparr>, db)
      | Some categoryToDelete \<Rightarrow>
          if isDefault categoryToDelete
          then (False, st \<lparr> hook_error := Some ''Cannot delete default categories'' \<rparr>, db)
          else (case service_deleteCategory failure categoryId db of
                  Inr db' \<Rightarrow>
                    (True,
                     st \<lparr> hook_categories := filter (\<lambda>cat. c_id cat \<noteq> categoryId) (hook_categories st),
                          isDeleting := None, hook_error := None \<rparr>,
                     db')
                | Inl m \<Rightarrow>
                    (False,
                     st \<lparr> isDeleting := None,
                          hook_error := Some (if m = [] then ''Failed to delete category'' else m) \<rparr>,
                     db))))"

section \<open>The expense storage service\<close>

text \<open>
  The device's key-value storage holds the cached expenses, the pending-sync queue and
  the time of the last sync. Its calls can throw as well; \<open>storage_up\<close> tells whether they
  work. Whether the remote store accepts the write of an expense is the input
  \<open>remote_ok\<close>. A thrown error is a value: the remote store's own error, or the
  \<open>Error\<close> with the message the service creates.
\<close>

record async_storage =
  cached_expenses :: "Expense list"
  pending_sync_expenses :: "Expense list"
  last_sync_timestamp :: "int option"

datatype failure = FirestoreError | Error string

text \<open>
  \<open>findIndex\<close> by id, then replace at that index or \<open>push\<close>: the update that
  \<open>cacheExpenseLocally\<close> and \<open>addPendingSyncExpense\<close> apply to their arrays. The documents
  of a collection are keyed by id, so \<open>setDoc\<close> acts on them in the same way.
\<close>

fun upsert :: "Expense \<Rightarrow> Expense list \<Rightarrow> Expense list" where
  "upsert e [] = [e]"
| "upsert e (x # xs) = (if e_id x = e_id e then e # xs else x # upsert e xs)"

definition setDoc :: "(Expense \<Rightarrow> bool) \<Rightarrow> Expense \<Rightarrow> firestore \<Rightarrow> failure + firestore" where
  "setDoc remote_ok e db =
     (if remote_ok e then Inr (db \<lparr> expenses_coll := upsert e (expenses_coll db) \<rparr>)
      else Inl FirestoreError)"

text \<open>\<open>updateDoc\<close> fails when the document does not exist.\<close>

definition updateDoc :: "(Expense \<Rightarrow> bool) \<Rightarrow> Expense \<Rightarrow> firestore \<Rightarrow> failure + firestore" where
  "updateDoc remote_ok e db =
     (if remote_ok e \<and> e_id e \<in> set (map e_id (expenses_coll db))
      then Inr (db \<lparr> expenses_coll := upsert e (expenses_coll db) \<rparr>)
      else Inl FirestoreError)"

definition getCachedExpenses :: "bool \<Rightarrow> async_storage \<Rightarrow> Expense list" where
  "getCachedExpenses storage_up st = (if storage_up then cached_expenses st else [])"

definition cacheExpenses ::
    "bool \<Rightarrow> Expense list \<Rightarrow> async_storage \<Rightarrow> (failure + unit) \<times> async_storage" where
  "cacheExpenses storage_up expenses st =
     (if storage_up then (Inr (), st \<lparr> cached_expenses := expenses \<rparr>)
      else (Inl (Error ''Failed to cache expenses''), st))"

definition cacheExpenseLocally ::
    "bool \<Rightarrow> Expense \<Rightarrow> async_storage \<Rightarrow> (failure + unit) \<times> async_storage" where
  "cacheExpenseLocally storage_up e st =
     cacheExpenses storage_up (upsert e (getCachedExpenses storage_up st)) st"

definition getPendingSyncExpenses :: "bool \<Rightarrow> async_storage \<Rightarrow> Expense list" where
  "getPendingSyncExpenses storage_up st = (if storage_up then pending_sync_expenses st else [])"

definition addPendingSyncExpense ::
    "bool \<Rightarrow> Expense \<Rightarrow> async_storage \<Rightarrow> (failure + unit) \<times> async_storage" where
  "addPendingSyncExpense storage_up e st =
     (let pending = upsert e (getPendingSyncExpenses storage_up st)
      in if storage_up then (Inr (), st \<lparr> pending_sync_expenses := pending \<rparr>)
         else (Inl (Error ''Failed to add pending sync expense''), st))"

definition removePendingSyncExpense ::
    "bool \<Rightarrow> string \<Rightarrow> async_storage \<Rightarrow> (failure + unit) \<times> async_storage" where
  "removePendingSyncExpense storage_up expenseId st =
     (let filtered = filter (\<lambda>e. e_id e \<noteq> expenseId) (getPendingSyncExpenses storage_up st)
      in if storage_up then (Inr (), st \<lparr> pending_sync_expenses := filtered \<rparr>)
         else (Inl (Error ''Failed to remove pending sync expense''), st))"

definition updateLastSyncTimestamp ::
    "bool \<Rightarrow> int \<Rightarrow> async_storage \<Rightarrow> (failure + unit) \<times> async_storage" where
  "updateLastSyncTimestamp storage_up now st =
     (if storage_up then (Inr (), st \<lparr> last_sync_timestamp := Some now \<rparr>)
      else (Inl (Error ''Failed to update last sync timestamp''), st))"

text \<open>
  The \<open>catch\<close> block shared by the two write operations: queue the expense, then rethrow
  the error that was caught. If queueing throws, that error propagates instead.
\<close>

definition queue_and_rethrow ::
    "bool \<Rightarrow> Expense \<Rightarrow> failure \<Rightarrow> firestore \<times> async_storage
       \<Rightarrow> (failure + unit) \<times> firestore \<times> async_storage" where
  "queue_and_rethrow storage_up e err = (\<lambda>(db, st).
     (case addPendingSyncExpense storage_up e st of
        (Inr u, st') \<Rightarrow> (Inl err, db, st')
      | (Inl err', st') \<Rightarrow> (Inl err', db, st')))"

definition saveExpenseToFirestore ::
    "(Expense \<Rightarrow> bool) \<Rightarrow> bool \<Rightarrow> Expense \<Rightarrow> firestore \<times> async_storage
       \<Rightarrow> (failure + unit) \<times> firestore \<times> async_storage" where
  "saveExpenseToFirestore remote_ok storage_up e = (\<lambda>(db, st).
     (case setDoc remote_ok e db of
        Inl err \<Rightarrow> queue_and_rethrow storage_up e err (db, st)
      | Inr db' \<Rightarrow>
          (case cacheExpenseLocally storage_up e st of
             (Inl err, st') \<Rightarrow> queue_and_rethrow storage_up e err (db', st')
           | (Inr u, st') \<Rightarrow> (Inr (), db', st'))))"

definition updateExpenseInFirestore ::
    "(Expense \<Rightarrow> bool) \<Rightarrow> bool \<Rightarrow> Expense \<Rightarrow> firestore \<times> async_storage
       \<Rightarrow> (failure + unit) \<times> firestore \<times> async_storage" where
  "updateExpenseInFirestore remote_ok storage_up e = (\<lambda>(db, st).
     (case updateDoc remote_ok e db of
        Inl err \<Rightarrow> queue_and_rethrow storage_up e err (db, st)
      | Inr db' \<Rightarrow>
          (case cacheExpenseLocally storage_up e st of
             (Inl err, st') \<Rightarrow> queue_and_rethrow storage_up e err (db', st')
           | (Inr u, st') \<Rightarrow> (Inr (), db', st'))))"

text \<open>
  The body of the \<open>for\<close> loop of \<open>syncWithFirestore\<close> over the queue as it was read at the
  start: save, then remove from the queue; an error of either step is caught and logged.
\<close>

fun sync_loop ::
    "(Expense \<Rightarrow> bool) \<Rightarrow> bool \<Rightarrow> Expense list \<Rightarrow> firestore \<times> async_storage
       \<Rightarrow> firestore \<times> async_storage" where
  "sync_loop remote_ok storage_up [] (db, st) = (db, st)"
| "sync_loop remote_ok storage_up (e # es) (db, st) =
     (case saveExpenseToFirestore remote_ok storage_up e (db, st) of
        (Inl err, db', st') \<Rightarrow> sync_loop remote_ok storage_up es (db', st')
      | (Inr u, db', st') \<Rightarrow>
          sync_loop remote_ok storage_up es
            (db', snd (removePendingSyncExpense storage_up (e_id e) st')))"

definition syncWithFirestore ::
    "(Expense \<Rightarrow> bool) \<Rightarrow> bool \<Rightarrow> int \<Rightarrow> firestore \<times> async_storage
       \<Rightarrow> (failure + unit) \<times> firestore \<times> async_storage" where
  "syncWithFirestore remote_ok storage_up now = (\<lambda>(db, st).
     (let pendingExpenses = getPendingSyncExpenses storage_up st;
          (db', st') = sync_loop remote_ok storage_up pendingExpenses (db, st);
          (r, st'') = updateLastSyncTimestamp storage_up now st'
      in (r, db', st'')))"

section \<open>Example data\<close>

text \<open>
  The records of the specification's example: an income of 100 dated 2024-01-01 and an
  expense of 40 dated 2024-01-02, and the filter object with no field set.
\<close>

definition example_income :: Income where
  "example_income =
     \<lparr> i_id = ''i1'', i_amount = 100, i_label = ''Salary'', i_description = None,
       i_category = ''Salary'', i_date = utc_midnight 2024 1 1, supportingDocuments = None,
       i_createdAt = ''2024-01-01T09:00:00.000Z'', i_updatedAt = ''2024-01-01T09:00:00.000Z'' \<rparr>"

definition example_expense :: Expense where
  "example_expense =
     \<lparr> e_id = ''e1'', e_amount = 40, e_label = ''Groceries'',
       e_description = Some ''Weekly shop'', e_category = ''Food'',
       e_date = utc_midnight 2024 1 2, receipts = None,
       e_createdAt = ''2024-01-02T09:00:00.000Z'', e_updatedAt = ''2024-01-02T09:00:00.000Z'' \<rparr>"

definition no_filters :: TransactionFilters where
  "no_filters =
     \<lparr> searchQuery = None, ftype = None, categories = None, dateFrom = None,
       dateTo = None, amountMin = None, amountMax = None \<rparr>"

definition example_filtered :: "Transaction list" where
  "example_filtered =
     filteredTransactions latin1_toLowerCase no_filters
       (allTransactions [example_income] [example_expense])"

definition same_day_expense :: Expense where
  "same_day_expense = example_expense \<lparr> e_date := utc_midnight 2024 1 1 \<rparr>"

text \<open>
  The word \<open>strasse\<close> written with the sharp s (U+00DF), whose capital form is \<open>SS\<close>, as a
  search query, and an expense labelled with the same word.
\<close>

definition strasse_query :: string where
  "strasse_query = [CHR ''s'', CHR ''t'', CHR ''r'', CHR ''a'', CHR 0xDF, CHR ''e'']"

definition strasse_expense :: Expense where
  "strasse_expense =
     example_expense \<lparr> e_label := [CHR ''S'', CHR ''t'', CHR ''r'', CHR ''a'', CHR 0xDF, CHR ''e''],
                       e_description := None \<rparr>"

section \<open>Notions used to state the properties\<close>

text \<open>
  A summary \<open>s\<close> is consistent with the list \<open>w\<close> of transactions in its window when it
  counts and adds up exactly the incomes and the expenses of \<open>w\<close>.
\<close>

definition consistent_summary :: "TransactionSummaryData \<Rightarrow> Transaction list \<Rightarrow> bool" where
  "consistent_summary s w =
     (transactionCount s = incomeCount s + expenseCount s \<and>
      transactionCount s = length w \<and>
      incomeCount s = length (filter (\<lambda>t. type' t = income) w) \<and>
      expenseCount s = length (filter (\<lambda>t. type' t = expense) w) \<and>
      totalIncome s = sum_list (map amount (filter (\<lambda>t. type' t = income) w)) \<and>
      totalExpenses s = sum_list (map amount (filter (\<lambda>t. type' t = expense) w)))"

text \<open>
  The bound comparisons \<open>b \<le> a\<close> and \<open>a \<le> b\<close> in which the claim about the amount range is
  stated; with not-a-number they are false as well.
\<close>

fun bound_le :: "number \<Rightarrow> real \<Rightarrow> bool" where
  "bound_le Not_a_Number a = False"
| "bound_le Minus_Infinity a = True"
| "bound_le Plus_Infinity a = False"
| "bound_le (Finite b) a = (b \<le> a)"

fun le_bound :: "real \<Rightarrow> number \<Rightarrow> bool" where
  "le_bound a Not_a_Number = False"
| "le_bound a Minus_Infinity = False"
| "le_bound a Plus_Infinity = True"
| "le_bound a (Finite b) = (a \<le> b)"

text \<open>
  The text that the search looks into, before lowercasing. Two transactions have the same
  search text under a lowercasing function when they differ at most in the label and the
  description and their search texts have the same lowercase form.
\<close>

definition search_text :: "Transaction \<Rightarrow> string" where
  "search_text t = label t @ '' '' @ (case description t of None \<Rightarrow> [] | Some d \<Rightarrow> d)"

definition same_search_text :: "(string \<Rightarrow> string) \<Rightarrow> Transaction \<Rightarrow> Transaction \<Rightarrow> bool" where
  "same_search_text lower t t' =
     (lower (search_text t') = lower (search_text t) \<and>
      t' = t \<lparr> label := label t', description := description t' \<rparr>)"

text \<open>
  A change of letter case, character by character, in Latin-1 text: each character stays
  as it is, is replaced by its lowercase form, or is replaced by a character whose
  lowercase form it is. Two transactions are text variants when they differ at most by
  such a change in the label and in the description.
\<close>

definition case_change :: "char \<Rightarrow> char \<Rightarrow> bool" where
  "case_change c d = (d = c \<or> d = lower_char c \<or> c = lower_char d)"

definition case_variant :: "string \<Rightarrow> string \<Rightarrow> bool" where
  "case_variant s s' = list_all2 case_change s s'"

definition text_variant :: "Transaction \<Rightarrow> Transaction \<Rightarrow> bool" where
  "text_variant t t' =
     (case_variant (label t) (label t') \<and>
      rel_option case_variant (description t) (description t') \<and>
      t' = t \<lparr> label := label t', description := description t' \<rparr>)"

text \<open>The number of characters after the first dot of a printed number.\<close>

definition places_of :: "string \<Rightarrow> nat" where
  "places_of a = length (case drop 1 (split (CHR ''.'') a) of [] \<Rightarrow> [] | p # ps \<Rightarrow> p)"

text \<open>
  Data for the storage service: a remote store that rejects every write, one that accepts
  only the expense \<open>e1\<close>, a second expense, and empty stores.
\<close>

definition remote_down :: "Expense \<Rightarrow> bool" where
  "remote_down e = False"

definition remote_accepts_e1 :: "Expense \<Rightarrow> bool" where
  "remote_accepts_e1 e = (e_id e = ''e1'')"

definition second_expense :: Expense where
  "second_expense = example_expense \<lparr> e_id := ''e2'', e_amount := 12.5, e_label := ''Bus'' \<rparr>"

definition empty_db :: firestore where
  "empty_db = \<lparr> categories_coll = [], expenses_coll = [], incomes_coll = [] \<rparr>"

definition empty_storage :: async_storage where
  "empty_storage = \<lparr> cached_expenses = [], pending_sync_expenses = [], last_sync_timestamp = None \<rparr>"

definition queued_storage :: async_storage where
  "queued_storage = empty_storage \<lparr> pending_sync_expenses := [example_expense, second_expense] \<rparr>"

text \<open>
  Data for category deletion: the default category \<open>Other\<close>, a custom category \<open>Pets\<close>, and
  an expense and an income filed under \<open>Pets\<close>.
\<close>

definition other_category :: Category where
  "other_category = \<lparr> c_id = ''c5'', c_name = ''Other'', color = ''#FECA57'', isDefault = True,
     c_createdAt = ''2024-01-01T00:00:00.000Z'', c_updatedAt = ''2024-01-01T00:00:00.000Z'' \<rparr>"

definition pets_category :: Category where
  "pets_category = \<lparr> c_id = ''c6'', c_name = ''Pets'', color = ''#123456'', isDefault = False,
     c_createdAt = ''2024-01-03T00:00:00.000Z'', c_updatedAt = ''2024-01-03T00:00:00.000Z'' \<rparr>"

definition pets_expense :: Expense where
  "pets_expense = example_expense \<lparr> e_id := ''e3'', e_label := ''Vet'', e_category := ''Pets'' \<rparr>"

definition pets_income :: Income where
  "pets_income = example_income \<lparr> i_id := ''i3'', i_label := ''Puppy sale'', i_category := ''Pets'' \<rparr>"

definition pets_db :: firestore where
  "pets_db = \<lparr> categories_coll = [other_category, pets_category],
               expenses_coll = [pets_expense], incomes_coll = [pets_income] \<rparr>"

definition pets_state :: categories_state where
  "pets_state = \<lparr> hook_categories = [other_category, pets_category], isDeleting = None,
                  hook_error = None \<rparr>"

section \<open>Summaries\<close>

lemma foldl_amount: "foldl (\<lambda>sum t. sum + amount t) a ts = a + sum_list (map amount ts)"
  by (induction ts arbitrary: a) simp_all

lemma length_type_partition:
  "length (filter (\<lambda>t. type' t = income) ts) + length (filter (\<lambda>t. type' t = expense) ts)
     = length ts"
proof (induction ts)
  case Nil
  show ?case by simp
next
  case (Cons t ts)
  then show ?case by (cases "type' t") simp_all
qed

lemma summarise_fields:
  "totalIncome (summarise ts) = sum_list (map amount (filter (\<lambda>t. type' t = income) ts))"
  "totalExpenses (summarise ts) = sum_list (map amount (filter (\<lambda>t. type' t = expense) ts))"
  "netBalance (summarise ts) = totalIncome (summarise ts) - totalExpenses (summarise ts)"
  "transactionCount (summarise ts) = length ts"
  "incomeCount (summarise ts) = length (filter (\<lambda>t. type' t = income) ts)"
  "expenseCount (summarise ts) = length (filter (\<lambda>t. type' t = expense) ts)"
  "averageIncome (summarise ts) =
     (if incomeCount (summarise ts) > 0
      then totalIncome (summarise ts) / real (incomeCount (summarise ts)) else 0)"
  "averageExpense (summarise ts) =
     (if expenseCount (summarise ts) > 0
      then totalExpenses (summarise ts) / real (expenseCount (summarise ts)) else 0)"
  by (simp_all add: summarise_def Let_def foldl_amount)

lemmas example_defs =
  example_filtered_def allTransactions_def filteredTransactions_def keeps_def
  createTransactionFromIncome_def createTransactionFromExpense_def
  example_income_def example_expense_def no_filters_def
  utc_midnight_def days_from_civil_def msPerDay_def Let_def

lemma example_filtered_eq:
  "example_filtered =
     [createTransactionFromExpense example_expense, createTransactionFromIncome example_income]"
  by (simp add: example_defs)

lemma example_summaryData:
  "summaryData example_filtered =
     \<lparr> totalIncome = 100, totalExpenses = 40, netBalance = 60, transactionCount = 2,
       incomeCount = 1, expenseCount = 1, averageIncome = 100, averageExpense = 40 \<rparr>"
  by (simp add: example_filtered_eq summaryData_def summarise_def
        createTransactionFromIncome_def createTransactionFromExpense_def
        example_income_def example_expense_def)

text \<open>
  Claim C1. For every list of filtered transactions, the summary has
  \<open>netBalance = totalIncome - totalExpenses\<close>; \<open>averageIncome\<close> is
  \<open>totalIncome / incomeCount\<close> when \<open>incomeCount > 0\<close> and \<open>0\<close> when \<open>incomeCount = 0\<close>, and
  \<open>averageExpense\<close> relates to \<open>totalExpenses\<close> and \<open>expenseCount\<close> in the same way.
\<close>

theorem summaryData_net_and_averages:
  "netBalance (summaryData filtered) =
     totalIncome (summaryData filtered) - totalExpenses (summaryData filtered) \<and>
   (incomeCount (summaryData filtered) > 0 \<longrightarrow>
      averageIncome (summaryData filtered) =
        totalIncome (summaryData filtered) / real (incomeCount (summaryData filtered))) \<and>
   (incomeCount (summaryData filtered) = 0 \<longrightarrow> averageIncome (summaryData filtered) = 0) \<and>
   (expenseCount (summaryData filtered) > 0 \<longrightarrow>
      averageExpense (summaryData filtered) =
        totalExpenses (summaryData filtered) / real (expenseCount (summaryData filtered))) \<and>
   (expenseCount (summaryData filtered) = 0 \<longrightarrow> averageExpense (summaryData filtered) = 0)"
  unfolding summaryData_def
  by (simp add: summarise_fields(3,7,8))

theorem summaryData_net_and_averages_witness:
  "incomeCount (summaryData example_filtered) > 0 \<and>
   expenseCount (summaryData example_filtered) > 0 \<and>
   netBalance (summaryData example_filtered) = 100 - 40 \<and>
   averageIncome (summaryData example_filtered) = 100 / 1 \<and>
   averageExpense (summaryData example_filtered) = 40 / 1 \<and>
   incomeCount (summaryData []) = 0 \<and> averageIncome (summaryData []) = 0 \<and>
   expenseCount (summaryData []) = 0 \<and> averageExpense (summaryData []) = 0"
  using summaryData_net_and_averages [of example_filtered]
    summaryData_net_and_averages [of "[]"]
  by (simp add: example_summaryData) (simp add: summaryData_def summarise_def)

lemma summarise_consistent: "consistent_summary (summarise w) w"
  by (simp add: consistent_summary_def length_type_partition summarise_fields(1,2,4,5,6))

text \<open>
  Claim C9. Each of the three summaries (overall, monthly, year to date) has
  \<open>transactionCount = incomeCount + expenseCount\<close>, and its totals are the sums of the
  amounts of exactly the transactions it counts; the three windows are taken from the
  same filtered list.
\<close>

theorem summaries_consistent:
  "consistent_summary (summaryData filtered) filtered \<and>
   consistent_summary (monthlyData tz now filtered)
     (filter (\<lambda>t. getMonth tz (date t) = getMonth tz now \<and>
                     getFullYear tz (date t) = getFullYear tz now) filtered) \<and>
   consistent_summary (yearToDateData tz now filtered)
     (filter (\<lambda>t. getFullYear tz (date t) = getFullYear tz now) filtered)"
  by (simp add: summaryData_def monthlyData_def yearToDateData_def Let_def summarise_consistent)

section \<open>The merged list\<close>

lemma mset_insert_by: "mset (insert_by cmp x xs) = add_mset x (mset xs)"
  by (induction xs) simp_all

lemma mset_sort_by: "mset (sort_by cmp xs) = mset xs"
  by (induction xs) (simp_all add: mset_insert_by)

lemma set_insert_by: "set (insert_by cmp x xs) = insert x (set xs)"
  by (induction xs) auto

lemma sorted_insert_by_date:
  "sorted_wrt (\<lambda>a b. date b \<le> date a) xs \<Longrightarrow>
   sorted_wrt (\<lambda>a b. date b \<le> date a) (insert_by (\<lambda>a b. date b - date a) x xs)"
  by (induction xs) (auto simp: set_insert_by)

lemma sorted_sort_by_date:
  "sorted_wrt (\<lambda>a b. date b \<le> date a) (sort_by (\<lambda>a b. date b - date a) xs)"
  by (induction xs) (simp_all add: sorted_insert_by_date)

text \<open>
  Stability: an inserted element goes in front of the elements that carry its date, so
  the elements of any one date keep the order they had before sorting.
\<close>

lemma same_date_insert_by:
  "filter (\<lambda>t. date t = d) (insert_by (\<lambda>a b. date b - date a) x xs) =
     (if date x = d then x # filter (\<lambda>t. date t = d) xs else filter (\<lambda>t. date t = d) xs)"
  by (induction xs) auto

lemma same_date_sort_by:
  "filter (\<lambda>t. date t = d) (sort_by (\<lambda>a b. date b - date a) xs) = filter (\<lambda>t. date t = d) xs"
  by (induction xs) (simp_all add: same_date_insert_by)

text \<open>
  Claim C2, as stated: every element of the merged list is dated strictly later than the
  next one. It fails as soon as two records carry the same date: an income and an expense
  of 2024-01-01 are merged into a list of two elements with equal dates.
\<close>

theorem allTransactions_strict_counterexample:
  "length (allTransactions [example_income] [same_day_expense]) = 2 \<and>
   \<not> date (allTransactions [example_income] [same_day_expense] ! 0)
        > date (allTransactions [example_income] [same_day_expense] ! 1)"
  by (simp add: allTransactions_def same_day_expense_def example_income_def example_expense_def
        createTransactionFromIncome_def createTransactionFromExpense_def)

text \<open>
  Claim C2, amended. For every pair of income and expense lists the merged list is
  sorted by date descending, ties allowed: every element's date is later than or equal
  to the date of every element after it, in particular of the next one. The merged list
  holds exactly the transactions made from the two inputs, and the records of any one
  date stay in their original order: incomes before expenses, each in the order of its
  input list.
\<close>

theorem allTransactions_sorted_descending:
  "sorted_wrt (\<lambda>a b. date a \<ge> date b) (allTransactions incomes expenses) \<and>
   (\<forall>i. Suc i < length (allTransactions incomes expenses) \<longrightarrow>
      date (allTransactions incomes expenses ! i) \<ge> date (allTransactions incomes expenses ! Suc i)) \<and>
   mset (allTransactions incomes expenses) =
     mset (map createTransactionFromIncome incomes) + mset (map createTransactionFromExpense expenses) \<and>
   (\<forall>d. filter (\<lambda>t. date t = d) (allTransactions incomes expenses) =
        filter (\<lambda>t. date t = d)
          (map createTransactionFromIncome incomes @ map createTransactionFromExpense expenses))"
proof -
  have s: "sorted_wrt (\<lambda>a b. date a \<ge> date b) (allTransactions incomes expenses)"
    by (simp add: allTransactions_def sorted_sort_by_date)
  have "\<forall>i. Suc i < length (allTransactions incomes expenses) \<longrightarrow>
      date (allTransactions incomes expenses ! i) \<ge> date (allTransactions incomes expenses ! Suc i)"
    using s by (simp add: sorted_wrt_iff_nth_less)
  moreover have "mset (allTransactions incomes expenses) =
     mset (map createTransactionFromIncome incomes) + mset (map createTransactionFromExpense expenses)"
    by (simp add: allTransactions_def mset_sort_by)
  moreover have "\<forall>d. filter (\<lambda>t. date t = d) (allTransactions incomes expenses) =
        filter (\<lambda>t. date t = d)
          (map createTransactionFromIncome incomes @ map createTransactionFromExpense expenses)"
    by (simp only: allTransactions_def Let_def same_date_sort_by) simp
  ultimately show ?thesis using s by blast
qed

theorem allTransactions_sorted_descending_witness:
  "Suc 0 < length (allTransactions [example_income] [example_expense]) \<and>
   date (allTransactions [example_income] [example_expense] ! 0)
     \<ge> date (allTransactions [example_income] [example_expense] ! Suc 0) \<and>
   allTransactions [example_income] [same_day_expense] =
     [createTransactionFromIncome example_income, createTransactionFromExpense same_day_expense]"
  using allTransactions_sorted_descending [of "[example_income]" "[example_expense]"]
    allTransactions_sorted_descending [of "[example_income]" "[same_day_expense]"]
  by (simp add: allTransactions_def createTransactionFromIncome_def createTransactionFromExpense_def
      example_income_def example_expense_def same_day_expense_def utc_midnight_def
      days_from_civil_def msPerDay_def)

section \<open>Filtering\<close>

lemma keeps_category:
  "categories f = Some cs \<Longrightarrow> cs \<noteq> [] \<Longrightarrow> keeps lower f t \<Longrightarrow> category t \<in> set cs"
  by (simp add: keeps_def split: if_splits)

lemma not_less_than: "(\<not> less_than a b) = (b = Not_a_Number \<or> bound_le b a)"
  by (cases b) auto

lemma not_greater_than: "(\<not> greater_than a b) = (b = Not_a_Number \<or> le_bound a b)"
  by (cases b) auto

lemma keeps_amount:
  "keeps lower f t \<longleftrightarrow>
     keeps lower (f\<lparr>amountMin := None, amountMax := None\<rparr>) t \<and>
     (case amountMin f of None \<Rightarrow> True | Some b \<Rightarrow> b = Not_a_Number \<or> bound_le b (amount t)) \<and>
     (case amountMax f of None \<Rightarrow> True | Some b \<Rightarrow> b = Not_a_Number \<or> le_bound (amount t) b)"
  by (auto simp: keeps_def not_less_than [symmetric] not_greater_than [symmetric]
        split: option.splits)

lemma keeps_only_amount:
  "keeps lower (no_filters\<lparr>amountMin := Some (Finite lo), amountMax := Some (Finite hi)\<rparr>) t
     \<longleftrightarrow> lo \<le> amount t \<and> amount t \<le> hi"
  by (auto simp: keeps_def no_filters_def)

text \<open>
  Claim C3, as stated: when an amount bound is given, a transaction is kept exactly when
  \<open>amountMin \<le> amount \<le> amountMax\<close>. A bound that is not-a-number is given (it is not
  \<open>undefined\<close>), and no amount is at least not-a-number; yet the filter keeps the income of
  the example.
\<close>

theorem filteredTransactions_nan_bound_counterexample:
  "amountMin (no_filters\<lparr>amountMin := Some Not_a_Number\<rparr>) = Some Not_a_Number \<and>
   createTransactionFromIncome example_income
     \<in> set (filteredTransactions latin1_toLowerCase (no_filters\<lparr>amountMin := Some Not_a_Number\<rparr>)
              example_filtered) \<and>
   \<not> bound_le Not_a_Number (amount (createTransactionFromIncome example_income))"
  by (simp add: example_filtered_eq filteredTransactions_def keeps_def no_filters_def)

text \<open>
  Claim C3, amended. With a non-empty category set, every transaction of the filtered
  result has its category in the set. The amount bounds keep, among the transactions that
  pass the other filters, exactly those with \<open>amountMin \<le> amount \<le> amountMax\<close>, where a
  missing bound and a bound that is not-a-number do not constrain; both bounds are
  inclusive. With two numbers as bounds and no other filter set, the result is exactly
  the transactions within the bounds.
\<close>

theorem filteredTransactions_category_and_amount:
  "(categories f = Some cs \<and> cs \<noteq> [] \<longrightarrow>
      (\<forall>t \<in> set (filteredTransactions lower f ts). category t \<in> set cs)) \<and>
   filteredTransactions lower f ts =
     filter (\<lambda>t. (case amountMin f of
                     None \<Rightarrow> True
                   | Some b \<Rightarrow> b = Not_a_Number \<or> bound_le b (amount t)) \<and>
                  (case amountMax f of
                     None \<Rightarrow> True
                   | Some b \<Rightarrow> b = Not_a_Number \<or> le_bound (amount t) b))
       (filteredTransactions lower (f\<lparr>amountMin := None, amountMax := None\<rparr>) ts) \<and>
   filteredTransactions lower
       (no_filters\<lparr>amountMin := Some (Finite lo), amountMax := Some (Finite hi)\<rparr>) ts =
     filter (\<lambda>t. lo \<le> amount t \<and> amount t \<le> hi) ts"
proof (intro conjI impI)
  assume "categories f = Some cs \<and> cs \<noteq> []"
  then show "\<forall>t \<in> set (filteredTransactions lower f ts). category t \<in> set cs"
    by (auto simp: filteredTransactions_def dest: keeps_category)
next
  have "keeps lower f = (\<lambda>t. keeps lower (f\<lparr>amountMin := None, amountMax := None\<rparr>) t \<and>
     (case amountMin f of None \<Rightarrow> True | Some b \<Rightarrow> b = Not_a_Number \<or> bound_le b (amount t)) \<and>
     (case amountMax f of None \<Rightarrow> True | Some b \<Rightarrow> b = Not_a_Number \<or> le_bound (amount t) b))"
    using keeps_amount by blast
  then show "filteredTransactions lower f ts =
     filter (\<lambda>t. (case amountMin f of
                     None \<Rightarrow> True
                   | Some b \<Rightarrow> b = Not_a_Number \<or> bound_le b (amount t)) \<and>
                  (case amountMax f of
                     None \<Rightarrow> True
                   | Some b \<Rightarrow> b = Not_a_Number \<or> le_bound (amount t) b))
       (filteredTransactions lower (f\<lparr>amountMin := None, amountMax := None\<rparr>) ts)"
    unfolding filteredTransactions_def filter_filter by (metis (mono_tags, lifting) filter_cong)
next
  show "filteredTransactions lower
       (no_filters\<lparr>amountMin := Some (Finite lo), amountMax := Some (Finite hi)\<rparr>) ts =
     filter (\<lambda>t. lo \<le> amount t \<and> amount t \<le> hi) ts"
    unfolding filteredTransactions_def using keeps_only_amount
    by (metis (mono_tags, lifting) filter_cong)
qed

theorem filteredTransactions_category_and_amount_witness:
  "categories (no_filters\<lparr>categories := Some [''Food'']\<rparr>) = Some [''Food''] \<and> [''Food''] \<noteq> [] \<and>
   createTransactionFromExpense example_expense
     \<in> set (filteredTransactions latin1_toLowerCase (no_filters\<lparr>categories := Some [''Food'']\<rparr>)
              example_filtered) \<and>
   category (createTransactionFromExpense example_expense) \<in> set [''Food''] \<and>
   filteredTransactions latin1_toLowerCase
     (no_filters\<lparr>amountMin := Some (Finite 40), amountMax := Some (Finite 100)\<rparr>) example_filtered
     = example_filtered \<and>
   filteredTransactions latin1_toLowerCase
     (no_filters\<lparr>amountMin := Some (Finite 41), amountMax := Some (Finite 99)\<rparr>) example_filtered
     = [] \<and>
   filteredTransactions latin1_toLowerCase
     (no_filters\<lparr>amountMin := Some Not_a_Number, amountMax := Some (Finite 99)\<rparr>) example_filtered
     = [createTransactionFromExpense example_expense]"
  using filteredTransactions_category_and_amount
          [where f = "no_filters\<lparr>categories := Some [''Food'']\<rparr>" and cs = "[''Food'']"
             and ts = example_filtered and lo = 40 and hi = 100 and lower = latin1_toLowerCase]
        filteredTransactions_category_and_amount
          [where f = "no_filters\<lparr>amountMin := Some Not_a_Number, amountMax := Some (Finite 99)\<rparr>"
             and ts = example_filtered and lo = 41 and hi = 99 and lower = latin1_toLowerCase]
  by (simp add: example_filtered_eq createTransactionFromIncome_def createTransactionFromExpense_def
        example_income_def example_expense_def no_filters_def filteredTransactions_def keeps_def)

lemma lower_char_idem: "lower_char (lower_char c) = lower_char c"
proof (cases c)
  case (Char b0 b1 b2 b3 b4 b5 b6 b7)
  show ?thesis unfolding Char
    by (cases b0; cases b1; cases b2; cases b3; cases b4; cases b5; cases b6; cases b7; simp)
qed

lemma case_change_lower: "case_change c d \<Longrightarrow> lower_char c = lower_char d"
  by (auto simp: case_change_def lower_char_idem)

lemma case_variant_lower: "case_variant s s' \<Longrightarrow> latin1_toLowerCase s = latin1_toLowerCase s'"
  unfolding case_variant_def latin1_toLowerCase_def
  by (induction s s' rule: list_all2_induct) (simp_all add: case_change_lower)

lemma case_variant_Nil: "case_variant s s' \<Longrightarrow> (s = []) = (s' = [])"
  unfolding case_variant_def by (cases s; cases s'; simp)

lemma latin1_toLowerCase_append:
  "latin1_toLowerCase (a @ b) = latin1_toLowerCase a @ latin1_toLowerCase b"
  by (simp add: latin1_toLowerCase_def)

lemma keeps_same_query:
  assumes "lower q = lower q'" "(q = []) = (q' = [])"
  shows "keeps lower (f\<lparr>searchQuery := Some q'\<rparr>) t = keeps lower (f\<lparr>searchQuery := Some q\<rparr>) t"
  using assms by (simp add: keeps_def)

lemma keeps_same_search_text:
  assumes "same_search_text lower t t'"
  shows "keeps lower f t' = keeps lower f t"
proof -
  have "t' = t \<lparr> label := label t', description := description t' \<rparr>"
    using assms by (simp add: same_search_text_def)
  then obtain l d where "t' = t \<lparr> label := l, description := d \<rparr>"
    by blast
  then have other: "type' t' = type' t" "category t' = category t" "date t' = date t"
    "amount t' = amount t"
    by simp_all
  have st: "lower (label t' @ '' '' @ (case description t' of None \<Rightarrow> [] | Some d \<Rightarrow> d)) =
              lower (label t @ '' '' @ (case description t of None \<Rightarrow> [] | Some d \<Rightarrow> d))"
    using assms by (simp add: same_search_text_def search_text_def)
  show ?thesis
    unfolding keeps_def st other ..
qed

lemma text_variant_same_search_text:
  assumes "text_variant t t'"
  shows "same_search_text latin1_toLowerCase t t'"
proof -
  have "case_variant (label t) (label t')"
    using assms by (simp add: text_variant_def)
  then have l: "latin1_toLowerCase (label t') = latin1_toLowerCase (label t)"
    by (rule case_variant_lower [symmetric])
  have "rel_option case_variant (description t) (description t')"
    using assms by (simp add: text_variant_def)
  then have d: "latin1_toLowerCase (case description t' of None \<Rightarrow> [] | Some d \<Rightarrow> d) =
                latin1_toLowerCase (case description t of None \<Rightarrow> [] | Some d \<Rightarrow> d)"
    by (cases "description t"; cases "description t'")
       (simp_all add: case_variant_lower [symmetric])
  have "latin1_toLowerCase (search_text t') = latin1_toLowerCase (search_text t)"
    unfolding search_text_def by (simp only: latin1_toLowerCase_append l d)
  moreover have "t' = t \<lparr> label := label t', description := description t' \<rparr>"
    using assms by (simp add: text_variant_def)
  ultimately show ?thesis
    unfolding same_search_text_def by (rule conjI)
qed

lemma filter_list_all2:
  "list_all2 R xs ys \<Longrightarrow> (\<And>x y. R x y \<Longrightarrow> P x = Q y) \<Longrightarrow>
   list_all2 R (filter P xs) (filter Q ys)"
  by (induction xs ys rule: list_all2_induct) auto

text \<open>
  Claim C10, as stated: the filtered result is unchanged under any change of letter case in
  the query. The capital form of the query \<open>strasse\<close> written with the sharp s is \<open>STRASSE\<close>;
  the first finds the expense labelled with that word, the second, lowercased to \<open>strasse\<close>
  with a double s, does not.
\<close>

theorem search_sharp_s_counterexample:
  "latin1_toUpperCase strasse_query = Some ''STRASSE'' \<and>
   filteredTransactions latin1_toLowerCase (no_filters\<lparr>searchQuery := Some strasse_query\<rparr>)
       [createTransactionFromExpense strasse_expense] =
     [createTransactionFromExpense strasse_expense] \<and>
   filteredTransactions latin1_toLowerCase (no_filters\<lparr>searchQuery := Some ''STRASSE''\<rparr>)
       [createTransactionFromExpense strasse_expense] = []"
  by (simp add: strasse_query_def strasse_expense_def example_expense_def
        createTransactionFromExpense_def filteredTransactions_def keeps_def no_filters_def
        latin1_toLowerCase_def)

text \<open>
  Claim C10, amended. The search compares lowercase forms, whatever the lowercasing
  function: the filtered result is unchanged under every change of the query that leaves
  its lowercase form, and whether it is empty, unchanged; and under every change of labels
  and descriptions that leaves the lowercase form of the text searched unchanged, the same
  transactions are kept (position by position, up to that change). For Latin-1 text this
  covers every character-by-character change of letter case, in the query and in the
  labels and descriptions.
\<close>

theorem search_compares_lowercase_forms:
  "(lower q = lower q' \<and> (q = []) = (q' = []) \<longrightarrow>
      filteredTransactions lower (f\<lparr>searchQuery := Some q'\<rparr>) ts =
      filteredTransactions lower (f\<lparr>searchQuery := Some q\<rparr>) ts) \<and>
   (list_all2 (same_search_text lower) ts ts' \<longrightarrow>
      list_all2 (same_search_text lower)
        (filteredTransactions lower f ts) (filteredTransactions lower f ts')) \<and>
   (case_variant q q' \<longrightarrow>
      filteredTransactions latin1_toLowerCase (f\<lparr>searchQuery := Some q'\<rparr>) ts =
      filteredTransactions latin1_toLowerCase (f\<lparr>searchQuery := Some q\<rparr>) ts) \<and>
   (list_all2 text_variant ts ts' \<longrightarrow>
      list_all2 text_variant
        (filteredTransactions latin1_toLowerCase f ts)
        (filteredTransactions latin1_toLowerCase f ts'))"
proof (intro conjI impI)
  assume "lower q = lower q' \<and> (q = []) = (q' = [])"
  then have "keeps lower (f\<lparr>searchQuery := Some q'\<rparr>) = keeps lower (f\<lparr>searchQuery := Some q\<rparr>)"
    using keeps_same_query by blast
  then show "filteredTransactions lower (f\<lparr>searchQuery := Some q'\<rparr>) ts =
      filteredTransactions lower (f\<lparr>searchQuery := Some q\<rparr>) ts"
    by (simp add: filteredTransactions_def)
next
  assume "list_all2 (same_search_text lower) ts ts'"
  then show "list_all2 (same_search_text lower)
        (filteredTransactions lower f ts) (filteredTransactions lower f ts')"
    unfolding filteredTransactions_def
    by (rule filter_list_all2) (use keeps_same_search_text in blast)
next
  assume v: "case_variant q q'"
  have "keeps latin1_toLowerCase (f\<lparr>searchQuery := Some q'\<rparr>) =
        keeps latin1_toLowerCase (f\<lparr>searchQuery := Some q\<rparr>)"
    using keeps_same_query [OF case_variant_lower [OF v] case_variant_Nil [OF v]] by blast
  then show "filteredTransactions latin1_toLowerCase (f\<lparr>searchQuery := Some q'\<rparr>) ts =
      filteredTransactions latin1_toLowerCase (f\<lparr>searchQuery := Some q\<rparr>) ts"
    by (simp add: filteredTransactions_def)
next
  assume "list_all2 text_variant ts ts'"
  then show "list_all2 text_variant
        (filteredTransactions latin1_toLowerCase f ts)
        (filteredTransactions latin1_toLowerCase f ts')"
    unfolding filteredTransactions_def
    by (rule filter_list_all2)
       (use keeps_same_search_text text_variant_same_search_text in blast)
qed

theorem search_compares_lowercase_forms_witness:
  "latin1_toLowerCase ''groc'' = latin1_toLowerCase ''GrOC'' \<and>
   case_variant ''groc'' ''GrOC'' \<and>
   filteredTransactions latin1_toLowerCase (no_filters\<lparr>searchQuery := Some ''GrOC''\<rparr>)
       example_filtered =
     filteredTransactions latin1_toLowerCase (no_filters\<lparr>searchQuery := Some ''groc''\<rparr>)
       example_filtered \<and>
   list_all2 text_variant
     [createTransactionFromExpense example_expense]
     [createTransactionFromExpense (example_expense\<lparr>e_label := ''GROCERIES''\<rparr>)] \<and>
   list_all2 (same_search_text latin1_toLowerCase)
     [createTransactionFromExpense example_expense]
     [createTransactionFromExpense (example_expense\<lparr>e_label := ''GROCERIES''\<rparr>)] \<and>
   list_all2 text_variant
     (filteredTransactions latin1_toLowerCase (no_filters\<lparr>searchQuery := Some ''groc''\<rparr>)
        [createTransactionFromExpense example_expense])
     (filteredTransactions latin1_toLowerCase (no_filters\<lparr>searchQuery := Some ''groc''\<rparr>)
        [createTransactionFromExpense (example_expense\<lparr>e_label := ''GROCERIES''\<rparr>)]) \<and>
   list_all2 (same_search_text latin1_toLowerCase)
     (filteredTransactions latin1_toLowerCase (no_filters\<lparr>searchQuery := Some ''groc''\<rparr>)
        [createTransactionFromExpense example_expense])
     (filteredTransactions latin1_toLowerCase (no_filters\<lparr>searchQuery := Some ''groc''\<rparr>)
        [createTransactionFromExpense (example_expense\<lparr>e_label := ''GROCERIES''\<rparr>)])"
proof -
  have l: "latin1_toLowerCase ''groc'' = latin1_toLowerCase ''GrOC''" "(''groc'' = []) = (''GrOC'' = [])"
    by (simp_all add: latin1_toLowerCase_def)
  have q: "case_variant ''groc'' ''GrOC''"
    by (simp add: case_variant_def case_change_def)
  have t: "list_all2 text_variant
     [createTransactionFromExpense example_expense]
     [createTransactionFromExpense (example_expense\<lparr>e_label := ''GROCERIES''\<rparr>)]"
    by (simp add: text_variant_def case_variant_def case_change_def
         createTransactionFromExpense_def example_expense_def)
  have u: "list_all2 (same_search_text latin1_toLowerCase)
     [createTransactionFromExpense example_expense]
     [createTransactionFromExpense (example_expense\<lparr>e_label := ''GROCERIES''\<rparr>)]"
    by (simp add: same_search_text_def search_text_def latin1_toLowerCase_def
         createTransactionFromExpense_def example_expense_def)
  show ?thesis
    using l q t u
      search_compares_lowercase_forms [where q = "''groc''" and q' = "''GrOC''" and f = no_filters
        and ts = example_filtered and lower = latin1_toLowerCase]
      search_compares_lowercase_forms
        [where f = "no_filters\<lparr>searchQuery := Some ''groc''\<rparr>" and lower = latin1_toLowerCase
        and ts = "[createTransactionFromExpense example_expense]"
        and ts' = "[createTransactionFromExpense (example_expense\<lparr>e_label := ''GROCERIES''\<rparr>)]"]
    by blast
qed

section \<open>The monthly summary of the example\<close>

lemma example_dates_west:
  "getMonth (-300) (utc_midnight 2024 1 1) = 11" "getFullYear (-300) (utc_midnight 2024 1 1) = 2023"
  "getMonth (-300) (utc_midnight 2024 1 2) = 0" "getFullYear (-300) (utc_midnight 2024 1 2) = 2024"
  "getMonth (-300) (utc_midnight 2024 1 15) = 0" "getFullYear (-300) (utc_midnight 2024 1 15) = 2024"
  by code_simp+

text \<open>
  Claim C8. With the incomes \<open>[{100, 2024-01-01}]\<close>, the expenses \<open>[{40, 2024-01-02}]\<close> and
  no filter, the monthly summary in January 2024 should count both records. On a device
  five hours west of UTC, in the middle of January 2024, it does not: the income's date is
  read as midnight UTC, which is 31 December 2023 on the local calendar, so only the
  expense is counted.
\<close>

theorem monthlyData_example_west_of_utc:
  "monthlyData (-300) (utc_midnight 2024 1 15) example_filtered =
     \<lparr> totalIncome = 0, totalExpenses = 40, netBalance = - 40, transactionCount = 1,
       incomeCount = 0, expenseCount = 1, averageIncome = 0, averageExpense = 40 \<rparr>"
  by (simp add: monthlyData_def example_filtered_eq summarise_def example_dates_west
        createTransactionFromIncome_def createTransactionFromExpense_def
        example_income_def example_expense_def)

text \<open>
  On a device at or east of UTC the two dates fall on the local days they name, and the
  summary of the example is the expected one whenever the clock is in January 2024.
\<close>

lemma localDay_east:
  assumes "0 \<le> tz" "tz < 1440"
  shows "localDay tz (utc_midnight y m d) = days_from_civil y m d"
proof -
  have "(days_from_civil y m d * 86400000 + tz * 60000) div 86400000 = days_from_civil y m d"
    using assms by (intro int_div_pos_eq [where r = "tz * 60000"]) simp_all
  then show ?thesis by (simp add: localDay_def utc_midnight_def msPerDay_def)
qed

lemma civil_examples:
  "civil_from_days (days_from_civil 2024 1 1) = (2024, 1, 1)"
  "civil_from_days (days_from_civil 2024 1 2) = (2024, 1, 2)"
  by code_simp+

lemma monthlyData_example_east_of_utc:
  assumes "0 \<le> tz" "tz < 1440" "getMonth tz now = 0" "getFullYear tz now = 2024"
  shows "monthlyData tz now example_filtered =
     \<lparr> totalIncome = 100, totalExpenses = 40, netBalance = 60, transactionCount = 2,
       incomeCount = 1, expenseCount = 1, averageIncome = 100, averageExpense = 40 \<rparr>"
proof -
  have d: "getMonth tz (utc_midnight 2024 1 1) = 0" "getFullYear tz (utc_midnight 2024 1 1) = 2024"
    "getMonth tz (utc_midnight 2024 1 2) = 0" "getFullYear tz (utc_midnight 2024 1 2) = 2024"
    by (simp_all add: getMonth_def getFullYear_def localDay_east [OF assms(1,2)] civil_examples)
  show ?thesis
    by (simp add: monthlyData_def example_filtered_eq summarise_def d assms(3,4)
        createTransactionFromIncome_def createTransactionFromExpense_def
        example_income_def example_expense_def)
qed

section \<open>Amount validation\<close>

lemma digit_char_not_dot: "d < 10 \<Longrightarrow> digit_char d \<noteq> CHR ''.''"
proof -
  assume "d < 10"
  then have "d \<in> {0,1,2,3,4,5,6,7,8,9}" by auto
  then show ?thesis by (auto simp: digit_char_def)
qed

lemma split_no_sep: "sep \<notin> set a \<Longrightarrow> split sep a = [a]"
  by (induction a) auto

lemma split_append: "sep \<notin> set a \<Longrightarrow> split sep (a @ sep # b) = a # split sep b"
  by (induction a) auto

lemma dot_free_digits: "list_all (\<lambda>d. d < 10) ds \<Longrightarrow> CHR ''.'' \<notin> set (map digit_char ds)"
proof (induction ds)
  case Nil
  show ?case by simp
next
  case (Cons d ds)
  then have "digit_char d \<noteq> CHR ''.''" by (simp add: digit_char_not_dot)
  with Cons show ?case by auto
qed

lemma decimalPlaces_places_of: "decimalPlaces x = places_of (toString x)"
  by (simp add: decimalPlaces_def places_of_def)

lemma places_no_dot: "CHR ''.'' \<notin> set a \<Longrightarrow> places_of a = 0"
  by (simp add: split_no_sep places_of_def)

lemma places_one_dot: "CHR ''.'' \<notin> set a \<Longrightarrow> CHR ''.'' \<notin> set b \<Longrightarrow>
   places_of (a @ CHR ''.'' # b) = length b"
  by (simp add: split_append split_no_sep places_of_def)

lemma decimalPlaces_plain:
  assumes ds: "list_all (\<lambda>d. d < 10) ds" and n: "- 6 < n" "n \<le> 21"
  shows "decimalPlaces (Decimal neg ds n) = fraction_digits (Decimal neg ds n)"
proof -
  let ?s = "map digit_char ds"
  let ?sign = "if neg then ''-'' else []"
  have s: "CHR ''.'' \<notin> set ?s" using ds by (rule dot_free_digits)
  have sign: "CHR ''.'' \<notin> set ?sign" by simp
  consider (whole) "int (length ds) \<le> n" | (mid) "0 < n" "n < int (length ds)"
    | (small) "n \<le> 0" "n < int (length ds)"
    by linarith
  then show ?thesis
  proof cases
    case whole
    let ?z = "replicate (nat (n - int (length ds))) (CHR ''0'')"
    have ts: "toString (Decimal neg ds n) = ?sign @ ?s @ ?z"
      using whole n by (simp add: Let_def)
    have nd: "CHR ''.'' \<notin> set (?sign @ ?s @ ?z)"
      using s by auto
    have "decimalPlaces (Decimal neg ds n) = 0"
      unfolding decimalPlaces_places_of ts by (rule places_no_dot [OF nd])
    then show ?thesis using whole by simp
  next
    case mid
    have ts: "toString (Decimal neg ds n) = (?sign @ take (nat n) ?s) @ CHR ''.'' # drop (nat n) ?s"
      using mid n by (simp add: Let_def)
    have a: "CHR ''.'' \<notin> set (?sign @ take (nat n) ?s)"
      using s by (auto dest: in_set_takeD)
    have b: "CHR ''.'' \<notin> set (drop (nat n) ?s)"
      using s by (auto dest: in_set_dropD)
    have "decimalPlaces (Decimal neg ds n) = length (drop (nat n) ?s)"
      unfolding decimalPlaces_places_of ts by (rule places_one_dot [OF a b])
    then show ?thesis using mid by simp
  next
    case small
    let ?z = "replicate (nat (- n)) (CHR ''0'')"
    have ts: "toString (Decimal neg ds n) = (?sign @ ''0'') @ CHR ''.'' # (?z @ ?s)"
      using small n by (simp add: Let_def)
    have a: "CHR ''.'' \<notin> set (?sign @ ''0'')" by simp
    have b: "CHR ''.'' \<notin> set (?z @ ?s)"
      using s by auto
    have "decimalPlaces (Decimal neg ds n) = length (?z @ ?s)"
      unfolding decimalPlaces_places_of ts by (rule places_one_dot [OF a b])
    then show ?thesis using small by simp
  qed
qed

lemma validateAmount_rejects_negative:
  "less_zero x \<Longrightarrow> validateAmount x = invalid ''Amount cannot be negative''"
  by (simp add: validateAmount_def)

lemma income_validateAmount_rejects_not_positive:
  "less_eq_zero x \<Longrightarrow>
   \<lparr> field = ''amount'', message = ''Amount must be positive'' \<rparr>
     \<in> set (income_validateAmount parseFloat (Num x))"
  by (cases x) (simp_all add: income_validateAmount_def Let_def)

lemma validateAmount_accepts_two_places:
  assumes "well_formed (Decimal False ds n)" "fraction_digits (Decimal False ds n) = 2"
  shows "validateAmount (Decimal False ds n) = valid"
    and "income_validateAmount parseFloat (Num (Decimal False ds n)) = []"
proof -
  have k: "1 \<le> length ds" "length ds \<le> 17" and ds: "list_all (\<lambda>d. d < 10) ds"
    using assms(1) by (cases ds; simp)+
  have "int (length ds) - n = 2" using assms(2) by simp
  then have n: "- 6 < n" "n \<le> 21" using k by linarith+
  have "decimalPlaces (Decimal False ds n) = 2"
    using decimalPlaces_plain [OF ds n] assms(2) by simp
  then show "validateAmount (Decimal False ds n) = valid"
    and "income_validateAmount parseFloat (Num (Decimal False ds n)) = []"
    by (simp_all add: validateAmount_def income_validateAmount_def)
qed

lemma validateAmount_rejects_more_places_plain:
  assumes "list_all (\<lambda>d. d < 10) ds" "- 6 < n" "n \<le> 21" "fraction_digits (Decimal neg ds n) > 2"
  shows "\<not> isValid (validateAmount (Decimal neg ds n))"
    and "income_validateAmount parseFloat (Num (Decimal neg ds n)) \<noteq> []"
proof -
  have "decimalPlaces (Decimal neg ds n) > 2"
    using decimalPlaces_plain [OF assms(1,2,3)] assms(4) by simp
  then show "\<not> isValid (validateAmount (Decimal neg ds n))"
    and "income_validateAmount parseFloat (Num (Decimal neg ds n)) \<noteq> []"
    by (cases neg; simp add: validateAmount_def income_validateAmount_def invalid_def Let_def)+
qed

lemma digits_of_no_dot: "CHR ''.'' \<notin> set (digits_of m)"
proof (induction m rule: digits_of.induct)
  case (1 m)
  have "digit_char (m mod 10) \<noteq> CHR ''.''" by (simp add: digit_char_not_dot)
  moreover have "m < 10 \<Longrightarrow> digit_char m \<noteq> CHR ''.''" by (simp add: digit_char_not_dot)
  ultimately show ?case using 1 by (subst digits_of.simps) auto
qed

lemma decimalPlaces_one_digit_exponent:
  assumes "d < 10" "n \<le> - 6"
  shows "decimalPlaces (Decimal neg [d] n) = 0"
proof -
  let ?sign = "if neg then ''-'' else []"
  have ts: "toString (Decimal neg [d] n) =
      ?sign @ [digit_char d] @ ''e-'' @ digits_of (nat \<bar>n - 1\<bar>)"
    using assms(2) by (simp add: Let_def)
  have "CHR ''.'' \<notin> set (?sign @ [digit_char d] @ ''e-'' @ digits_of (nat \<bar>n - 1\<bar>))"
    using digit_char_not_dot [OF assms(1)] digits_of_no_dot by auto
  then show ?thesis
    unfolding decimalPlaces_places_of ts by (rule places_no_dot)
qed

lemma validateAmount_accepts_tiny:
  assumes "d < 10" "n \<le> - 6"
  shows "validateAmount (Decimal False [d] n) = valid"
    and "income_validateAmount parseFloat (Num (Decimal False [d] n)) = []"
    and "fraction_digits (Decimal False [d] n) \<ge> 7"
  using decimalPlaces_one_digit_exponent [OF assms] assms(2)
  by (simp_all add: validateAmount_def income_validateAmount_def)

text \<open>
  Claim C4. Amount validation should reject every value with more than two fractional
  digits. The amount \<open>0.0000001\<close> has seven, but it prints as \<open>1e-7\<close>, a string without a
  dot, so both validators count no decimal places and accept it. (Negative amounts are
  rejected and amounts with exactly two fractional digits are accepted, as the lemmas
  above show; the check fails for one-digit amounts below \<open>0.000001\<close>.)
\<close>

theorem validateAmount_accepts_seven_places:
  "well_formed (Decimal False [1] (- 6)) \<and>
   toString (Decimal False [1] (- 6)) = ''1e-7'' \<and>
   fraction_digits (Decimal False [1] (- 6)) = 7 \<and>
   validateAmount (Decimal False [1] (- 6)) = valid \<and>
   income_validateAmount parseFloat (Num (Decimal False [1] (- 6))) = []"
  by (simp add: validateAmount_def income_validateAmount_def decimalPlaces_def digit_char_def
        digits_of.simps)

section \<open>Category name validation\<close>

lemma trim_all_space: "list_all is_space name \<Longrightarrow> trim name = []"
proof -
  assume "list_all is_space name"
  then have d: "dropWhile is_space name = []"
    by (induction name) simp_all
  show ?thesis unfolding trim_def d by simp
qed

lemma validateCategoryName_rejects_outside_class:
  assumes "c \<in> set name" "\<not> is_alnum c" "\<not> is_space c"
  shows "\<not> isValid (validateCategoryName name existing)"
    and "validateCategory name existing \<noteq> []"
proof -
  have "\<not> matches_name_pattern name"
    using assms by (auto simp: matches_name_pattern_def list_all_iff)
  then show "\<not> isValid (validateCategoryName name existing)"
    and "validateCategory name existing \<noteq> []"
    by (simp_all add: validateCategoryName_def validateCategory_def invalid_def)
qed

lemma validateCategoryName_rejects_long:
  assumes "length name > 15"
  shows "\<not> isValid (validateCategoryName name existing)"
    and "validateCategory name existing \<noteq> []"
  using assms by (simp_all add: validateCategoryName_def validateCategory_def invalid_def)

lemma validateCategoryName_rejects_duplicate:
  assumes "name \<in> set existing"
  shows "\<not> isValid (validateCategoryName name existing)"
    and "validateCategory name existing \<noteq> []"
  using assms by (simp_all add: validateCategoryName_def validateCategory_def invalid_def list_ex_iff)

lemma validateCategoryName_rejects_blank:
  assumes "list_all is_space name"
  shows "\<not> isValid (validateCategoryName name existing)"
    and "validateCategory name existing \<noteq> []"
  using trim_all_space [OF assms]
  by (simp_all add: validateCategoryName_def validateCategory_def invalid_def)

lemma validateCategoryName_accepts:
  assumes "name \<noteq> []" "trim name = name" "length name \<le> 15" "matches_name_pattern name"
    "name \<notin> set existing"
  shows "validateCategoryName name existing = valid"
    and "validateCategory name existing = []"
  using assms by (simp_all add: validateCategoryName_def validateCategory_def list_ex_iff)

lemma validateCategoryName_case_example:
  "validateCategoryName ''food'' [''Food''] = valid"
  "validateCategory ''food'' [''Food''] = []"
  "\<not> isValid (validateCategoryName ''Food'' [''Food''])"
  "validateCategory ''Food'' [''Food''] \<noteq> []"
  by (simp_all add: validateCategoryName_def validateCategory_def trim_def is_space_def
        matches_name_pattern_def is_alnum_def invalid_def valid_def)

text \<open>
  Claim C5. Category name validation should reject every name with a character that is
  not a letter, a digit or a space. The name \<open>a<TAB>b\<close> contains a tab, which the pattern's
  class \<open>\s\<close> admits, and both validators accept it. (Names over 15 characters, exact
  duplicates and blank names are rejected, and a name differing from an existing one only
  in case is accepted, as the lemmas above show.)
\<close>

theorem validateCategoryName_accepts_tab:
  "\<not> is_alnum (CHR 0x09) \<and> CHR 0x09 \<noteq> CHR '' '' \<and>
   validateCategoryName [CHR ''a'', CHR 0x09, CHR ''b''] [] = valid \<and>
   validateCategory [CHR ''a'', CHR 0x09, CHR ''b''] [] = []"
  by (simp add: validateCategoryName_def validateCategory_def trim_def is_space_def
        matches_name_pattern_def is_alnum_def)

theorem validateCategoryName_accepts_tab_witness:
  "[CHR ''a'', CHR 0x09, CHR ''b''] \<noteq> [] \<and>
   trim [CHR ''a'', CHR 0x09, CHR ''b''] = [CHR ''a'', CHR 0x09, CHR ''b''] \<and>
   isValid (validateCategoryName [CHR ''a'', CHR 0x09, CHR ''b''] [])"
  using validateCategoryName_accepts_tab
  by (simp add: valid_def trim_def is_space_def)

section \<open>The pending-sync queue\<close>

lemma upsert_ids:
  "map e_id (upsert e q) = (if e_id e \<in> set (map e_id q) then map e_id q else map e_id q @ [e_id e])"
  by (induction q) auto

lemma upsert_member: "e \<in> set (upsert e q)"
  by (induction q) auto

lemma upsert_others: "e_id x \<noteq> e_id e \<Longrightarrow> x \<in> set (upsert e q) \<longleftrightarrow> x \<in> set q"
  by (induction q) auto

lemma upsert_distinct: "distinct (map e_id q) \<Longrightarrow> distinct (map e_id (upsert e q))"
  by (simp add: upsert_ids)

lemma upsert_same: "e \<in> set q \<Longrightarrow> distinct (map e_id q) \<Longrightarrow> upsert e q = q"
  by (induction q) (auto simp: image_iff)

lemma remove_by_id:
  "e \<in> set q \<Longrightarrow> distinct (map e_id q) \<Longrightarrow>
   filter (\<lambda>x. e_id x \<noteq> e_id e) q = filter (\<lambda>x. x \<noteq> e) q"
proof (induction q)
  case Nil
  then show ?case by simp
next
  case (Cons x q)
  show ?case
  proof (cases "x = e")
    case True
    then have "\<forall>y\<in>set q. e_id y \<noteq> e_id e"
      using Cons.prems(2) by (auto simp: image_iff)
    then have "filter (\<lambda>x. e_id x \<noteq> e_id e) q = q" "filter (\<lambda>x. x \<noteq> e) q = q"
      by (auto simp: filter_id_conv)
    then show ?thesis using True by simp
  next
    case False
    then have "e \<in> set q" using Cons.prems(1) by simp
    moreover then have "e_id x \<noteq> e_id e" using Cons.prems(2) by (auto simp: image_iff)
    ultimately show ?thesis using Cons False by simp
  qed
qed

lemma save_remote_failure:
  "\<not> remote_ok e \<Longrightarrow>
   saveExpenseToFirestore remote_ok True e (db, st) =
     (Inl FirestoreError, db, st \<lparr> pending_sync_expenses := upsert e (pending_sync_expenses st) \<rparr>)"
  by (simp add: saveExpenseToFirestore_def setDoc_def queue_and_rethrow_def
        addPendingSyncExpense_def getPendingSyncExpenses_def)

lemma update_remote_failure:
  "\<not> (remote_ok e \<and> e_id e \<in> set (map e_id (expenses_coll db))) \<Longrightarrow>
   updateExpenseInFirestore remote_ok True e (db, st) =
     (Inl FirestoreError, db, st \<lparr> pending_sync_expenses := upsert e (pending_sync_expenses st) \<rparr>)"
  by (auto simp: updateExpenseInFirestore_def updateDoc_def queue_and_rethrow_def
        addPendingSyncExpense_def getPendingSyncExpenses_def)

lemma save_remote_success:
  "remote_ok e \<Longrightarrow>
   saveExpenseToFirestore remote_ok True e (db, st) =
     (Inr (), db \<lparr> expenses_coll := upsert e (expenses_coll db) \<rparr>,
      st \<lparr> cached_expenses := upsert e (cached_expenses st) \<rparr>)"
  by (simp add: saveExpenseToFirestore_def setDoc_def cacheExpenseLocally_def cacheExpenses_def
        getCachedExpenses_def)

lemma sync_loop_step_failure:
  assumes "\<not> remote_ok e" "e \<in> set (pending_sync_expenses st)"
    "distinct (map e_id (pending_sync_expenses st))"
  shows "sync_loop remote_ok True (e # es) (db, st) = sync_loop remote_ok True es (db, st)"
  using assms by (simp add: save_remote_failure upsert_same)

lemma sync_loop_step_success:
  assumes "remote_ok e" "e \<in> set (pending_sync_expenses st)"
    "distinct (map e_id (pending_sync_expenses st))"
  shows "sync_loop remote_ok True (e # es) (db, st) =
     sync_loop remote_ok True es
       (db \<lparr> expenses_coll := upsert e (expenses_coll db) \<rparr>,
        st \<lparr> cached_expenses := upsert e (cached_expenses st),
             pending_sync_expenses := filter (\<lambda>x. x \<noteq> e) (pending_sync_expenses st) \<rparr>)"
  using assms
  by (simp add: save_remote_success removePendingSyncExpense_def getPendingSyncExpenses_def
        remove_by_id)

lemma sync_loop_pending:
  assumes "distinct (map e_id (pending_sync_expenses st))" "set es \<subseteq> set (pending_sync_expenses st)"
    "distinct es"
  shows "pending_sync_expenses (snd (sync_loop remote_ok True es (db, st))) =
           filter (\<lambda>x. \<not> (x \<in> set es \<and> remote_ok x)) (pending_sync_expenses st)"
  using assms
proof (induction es arbitrary: db st)
  case Nil
  show ?case by simp
next
  case (Cons e es)
  have e: "e \<in> set (pending_sync_expenses st)" using Cons.prems(2) by simp
  show ?case
  proof (cases "remote_ok e")
    case False
    have "pending_sync_expenses (snd (sync_loop remote_ok True es (db, st))) =
           filter (\<lambda>x. \<not> (x \<in> set es \<and> remote_ok x)) (pending_sync_expenses st)"
      using Cons.prems by (intro Cons.IH) auto
    moreover have "filter (\<lambda>x. \<not> (x \<in> set es \<and> remote_ok x)) (pending_sync_expenses st) =
       filter (\<lambda>x. \<not> (x \<in> set (e # es) \<and> remote_ok x)) (pending_sync_expenses st)"
      using False by (intro filter_cong) auto
    moreover have "sync_loop remote_ok True (e # es) (db, st) = sync_loop remote_ok True es (db, st)"
      using False e Cons.prems(1) by (rule sync_loop_step_failure)
    ultimately show ?thesis by simp
  next
    case True
    let ?db = "db \<lparr> expenses_coll := upsert e (expenses_coll db) \<rparr>"
    let ?st = "st \<lparr> cached_expenses := upsert e (cached_expenses st),
             pending_sync_expenses := filter (\<lambda>x. x \<noteq> e) (pending_sync_expenses st) \<rparr>"
    have d: "distinct (map e_id (pending_sync_expenses ?st))"
      using Cons.prems(1) by (simp add: distinct_map_filter)
    have s: "set es \<subseteq> set (pending_sync_expenses ?st)"
      using Cons.prems(2,3) by auto
    have "pending_sync_expenses (snd (sync_loop remote_ok True es (?db, ?st))) =
           filter (\<lambda>x. \<not> (x \<in> set es \<and> remote_ok x)) (pending_sync_expenses ?st)"
      using d s Cons.prems(3) by (intro Cons.IH) auto
    moreover have "filter (\<lambda>x. \<not> (x \<in> set es \<and> remote_ok x)) (pending_sync_expenses ?st) =
       filter (\<lambda>x. \<not> (x \<in> set (e # es) \<and> remote_ok x)) (pending_sync_expenses st)"
      using True by (auto intro: filter_cong)
    moreover have "sync_loop remote_ok True (e # es) (db, st) = sync_loop remote_ok True es (?db, ?st)"
      using True e Cons.prems(1) by (rule sync_loop_step_success)
    ultimately show ?thesis by simp
  qed
qed

lemma save_db:
  "fst (snd (saveExpenseToFirestore remote_ok True e (db, st))) =
     (if remote_ok e then db \<lparr> expenses_coll := upsert e (expenses_coll db) \<rparr> else db)"
  by (simp add: save_remote_failure save_remote_success)

lemma sync_loop_db_keeps:
  "x \<in> set (expenses_coll db) \<Longrightarrow> e_id x \<notin> e_id ` set es \<Longrightarrow>
   x \<in> set (expenses_coll (fst (sync_loop remote_ok True es (db, st))))"
proof (induction es arbitrary: db st)
  case Nil
  then show ?case by simp
next
  case (Cons e es)
  show ?case
  proof (cases "remote_ok e")
    case True
    have "x \<in> set (upsert e (expenses_coll db))"
      using Cons.prems by (simp add: upsert_others)
    then show ?thesis
      using True Cons.prems(2) by (simp add: save_remote_success Cons.IH)
  next
    case False
    then show ?thesis
      using Cons.prems by (simp add: save_remote_failure Cons.IH)
  qed
qed

lemma sync_loop_db_saved:
  "x \<in> set es \<Longrightarrow> remote_ok x \<Longrightarrow> distinct (map e_id es) \<Longrightarrow>
   x \<in> set (expenses_coll (fst (sync_loop remote_ok True es (db, st))))"
proof (induction es arbitrary: db st)
  case Nil
  then show ?case by simp
next
  case (Cons e es)
  show ?case
  proof (cases "x = e")
    case True
    have "e_id x \<notin> e_id ` set es" using Cons.prems(3) True by simp
    moreover have "x \<in> set (upsert e (expenses_coll db))" using True by (simp add: upsert_member)
    ultimately show ?thesis
      using True Cons.prems(2) by (simp add: save_remote_success sync_loop_db_keeps)
  next
    case False
    then have "x \<in> set es" using Cons.prems(1) by simp
    then show ?thesis
      using Cons.prems(2,3) by (cases "remote_ok e") (simp_all add: save_remote_success save_remote_failure Cons.IH)
  qed
qed

lemma sync_result:
  assumes "distinct (map e_id (pending_sync_expenses st))"
  shows "fst (syncWithFirestore remote_ok True now (db, st)) = Inr ()"
    and "pending_sync_expenses (snd (snd (syncWithFirestore remote_ok True now (db, st)))) =
           filter (\<lambda>x. \<not> remote_ok x) (pending_sync_expenses st)"
    and "x \<in> set (pending_sync_expenses st) \<Longrightarrow> remote_ok x \<Longrightarrow>
           x \<in> set (expenses_coll (fst (snd (syncWithFirestore remote_ok True now (db, st)))))"
proof -
  let ?q = "pending_sync_expenses st"
  obtain db' st' where l: "sync_loop remote_ok True ?q (db, st) = (db', st')"
    by (cases "sync_loop remote_ok True ?q (db, st)")
  have d: "distinct ?q" using assms by (rule distinct_map [THEN iffD1, THEN conjunct1])
  have p: "pending_sync_expenses st' = filter (\<lambda>x. \<not> (x \<in> set ?q \<and> remote_ok x)) ?q"
    using sync_loop_pending [OF assms subset_refl d, of remote_ok db] l by simp
  have s: "syncWithFirestore remote_ok True now (db, st) =
      (Inr (), db', st' \<lparr> last_sync_timestamp := Some now \<rparr>)"
    by (simp add: syncWithFirestore_def getPendingSyncExpenses_def l updateLastSyncTimestamp_def)
  show "fst (syncWithFirestore remote_ok True now (db, st)) = Inr ()"
    by (simp add: s)
  have "filter (\<lambda>x. \<not> (x \<in> set ?q \<and> remote_ok x)) ?q = filter (\<lambda>x. \<not> remote_ok x) ?q"
    by (rule filter_cong) auto
  then show "pending_sync_expenses (snd (snd (syncWithFirestore remote_ok True now (db, st)))) =
           filter (\<lambda>x. \<not> remote_ok x) ?q"
    by (simp add: s p)
  show "x \<in> set ?q \<Longrightarrow> remote_ok x \<Longrightarrow>
           x \<in> set (expenses_coll (fst (snd (syncWithFirestore remote_ok True now (db, st)))))"
    using sync_loop_db_saved [of x ?q remote_ok db st] assms l by (simp add: s)
qed

lemma save_remote_and_storage_failure:
  "\<not> remote_ok e \<Longrightarrow>
   saveExpenseToFirestore remote_ok False e (db, st) =
     (Inl (Error ''Failed to add pending sync expense''), db, st)"
  by (simp add: saveExpenseToFirestore_def setDoc_def queue_and_rethrow_def
        addPendingSyncExpense_def)

lemma update_remote_and_storage_failure:
  "\<not> (remote_ok e \<and> e_id e \<in> set (map e_id (expenses_coll db))) \<Longrightarrow>
   updateExpenseInFirestore remote_ok False e (db, st) =
     (Inl (Error ''Failed to add pending sync expense''), db, st)"
  by (auto simp: updateExpenseInFirestore_def updateDoc_def queue_and_rethrow_def
        addPendingSyncExpense_def)

text \<open>
  Claim C7, as stated: every expense write whose remote operation fails puts the record
  into the pending-sync queue before the error propagates. When the device's storage
  fails as well, \<open>addPendingSyncExpense\<close> throws its own error out of the \<open>catch\<close> block: the
  record is not queued, and the storage error propagates in place of the remote one.
\<close>

theorem save_not_queued_counterexample:
  "\<not> remote_down example_expense \<and>
   saveExpenseToFirestore remote_down False example_expense (empty_db, empty_storage) =
     (Inl (Error ''Failed to add pending sync expense''), empty_db, empty_storage) \<and>
   example_expense \<notin> set (pending_sync_expenses (snd (snd
     (saveExpenseToFirestore remote_down False example_expense (empty_db, empty_storage)))))"
  by (simp add: saveExpenseToFirestore_def setDoc_def queue_and_rethrow_def
        addPendingSyncExpense_def remote_down_def empty_storage_def)

text \<open>
  Claim C7, amended. While the device's storage works: a create or an update whose
  remote operation fails leaves the remote store as it was, puts the record into the
  pending-sync queue and then propagates the remote error; queueing replaces the entry
  with the same id, if there is one, and appends otherwise, so the ids in the queue stay
  as they were or gain the new id at the end; and \<open>syncWithFirestore\<close>, run on a queue with
  one entry per id, completes, removes exactly the entries whose save succeeded, each of
  which is then in the remote store, and keeps the others. When the storage fails as well,
  a write whose remote operation fails changes nothing and propagates the storage error.
\<close>

theorem pending_queue_on_remote_failure:
  "(\<not> remote_ok e \<longrightarrow>
      saveExpenseToFirestore remote_ok True e (db, st) =
        (Inl FirestoreError, db,
         st \<lparr> pending_sync_expenses := upsert e (pending_sync_expenses st) \<rparr>) \<and>
      saveExpenseToFirestore remote_ok False e (db, st) =
        (Inl (Error ''Failed to add pending sync expense''), db, st)) \<and>
   (\<not> (remote_ok e \<and> e_id e \<in> set (map e_id (expenses_coll db))) \<longrightarrow>
      updateExpenseInFirestore remote_ok True e (db, st) =
        (Inl FirestoreError, db,
         st \<lparr> pending_sync_expenses := upsert e (pending_sync_expenses st) \<rparr>) \<and>
      updateExpenseInFirestore remote_ok False e (db, st) =
        (Inl (Error ''Failed to add pending sync expense''), db, st)) \<and>
   e \<in> set (upsert e q) \<and>
   map e_id (upsert e q) =
     (if e_id e \<in> set (map e_id q) then map e_id q else map e_id q @ [e_id e]) \<and>
   (distinct (map e_id (pending_sync_expenses st)) \<longrightarrow>
      fst (syncWithFirestore remote_ok True now (db, st)) = Inr () \<and>
      pending_sync_expenses (snd (snd (syncWithFirestore remote_ok True now (db, st)))) =
        filter (\<lambda>x. \<not> remote_ok x) (pending_sync_expenses st) \<and>
      (\<forall>x \<in> set (pending_sync_expenses st). remote_ok x \<longrightarrow>
         x \<in> set (expenses_coll (fst (snd (syncWithFirestore remote_ok True now (db, st)))))))"
  using save_remote_failure [where remote_ok = remote_ok and e = e and db = db and st = st]
    save_remote_and_storage_failure [where remote_ok = remote_ok and e = e and db = db and st = st]
    update_remote_failure [where remote_ok = remote_ok and e = e and db = db and st = st]
    update_remote_and_storage_failure
      [where remote_ok = remote_ok and e = e and db = db and st = st]
    upsert_member [where e = e and q = q] upsert_ids [where e = e and q = q]
    sync_result [where st = st and remote_ok = remote_ok and now = now and db = db]
  by blast

theorem pending_queue_on_remote_failure_witness:
  "\<not> remote_down second_expense \<and>
   saveExpenseToFirestore remote_down True second_expense (empty_db, queued_storage) =
     (Inl FirestoreError, empty_db, queued_storage) \<and>
   updateExpenseInFirestore remote_down True second_expense (empty_db, queued_storage) =
     (Inl FirestoreError, empty_db, queued_storage) \<and>
   saveExpenseToFirestore remote_down True example_expense (empty_db, empty_storage) =
     (Inl FirestoreError, empty_db,
      empty_storage \<lparr> pending_sync_expenses := [example_expense] \<rparr>) \<and>
   distinct (map e_id (pending_sync_expenses queued_storage)) \<and>
   fst (syncWithFirestore remote_accepts_e1 True 0 (empty_db, queued_storage)) = Inr () \<and>
   pending_sync_expenses
     (snd (snd (syncWithFirestore remote_accepts_e1 True 0 (empty_db, queued_storage)))) =
     [second_expense] \<and>
   example_expense
     \<in> set (expenses_coll (fst (snd (syncWithFirestore remote_accepts_e1 True 0 (empty_db, queued_storage)))))"
proof -
  have d: "distinct (map e_id (pending_sync_expenses queued_storage))"
    by (simp add: queued_storage_def empty_storage_def second_expense_def example_expense_def)
  have u: "upsert second_expense (pending_sync_expenses queued_storage) = pending_sync_expenses queued_storage"
    "pending_sync_expenses queued_storage = [example_expense, second_expense]"
    "upsert example_expense (pending_sync_expenses empty_storage) = [example_expense]"
    by (simp_all add: queued_storage_def empty_storage_def second_expense_def example_expense_def)
  have r: "\<not> remote_down second_expense" "\<not> remote_down example_expense"
    "remote_accepts_e1 example_expense" "\<not> remote_accepts_e1 second_expense"
    by (simp_all add: remote_down_def remote_accepts_e1_def second_expense_def example_expense_def)
  show ?thesis
    using d r
      pending_queue_on_remote_failure [where remote_ok = remote_down and e = second_expense
        and db = empty_db and st = queued_storage]
      pending_queue_on_remote_failure [where remote_ok = remote_down and e = example_expense
        and db = empty_db and st = empty_storage]
      pending_queue_on_remote_failure [where remote_ok = remote_accepts_e1 and now = 0
        and db = empty_db and st = queued_storage]
    by (simp add: u)
qed

section \<open>Deleting a category\<close>

text \<open>Whatever its outcome, \<open>deleteCategory\<close> leaves every expense and every income as it is.\<close>

lemma deleteCategory_keeps_records:
  "expenses_coll (snd (snd (deleteCategory failure cid (st, db)))) = expenses_coll db \<and>
   incomes_coll (snd (snd (deleteCategory failure cid (st, db)))) = incomes_coll db"
  by (simp add: deleteCategory_def service_deleteCategory_def split: option.splits sum.splits)

text \<open>
  Claim C6. Deleting a custom category should move the records filed under it to
  \<open>Other\<close>. Deleting the custom category \<open>Pets\<close> succeeds and removes the category from the
  hook's list and from the remote collection, but the expense and the income filed under
  \<open>Pets\<close> still carry that category afterwards.
\<close>

theorem deleteCategory_leaves_records_on_deleted_category:
  "\<not> isDefault pets_category \<and>
   fst (deleteCategory None ''c6'' (pets_state, pets_db)) = True \<and>
   map c_name (hook_categories (fst (snd (deleteCategory None ''c6'' (pets_state, pets_db))))) = [''Other''] \<and>
   map c_name (categories_coll (snd (snd (deleteCategory None ''c6'' (pets_state, pets_db))))) = [''Other''] \<and>
   map e_category (expenses_coll (snd (snd (deleteCategory None ''c6'' (pets_state, pets_db))))) = [''Pets''] \<and>
   map i_category (incomes_coll (snd (snd (deleteCategory None ''c6'' (pets_state, pets_db))))) = [''Pets'']"
  by (simp add: deleteCategory_def service_deleteCategory_def pets_state_def pets_db_def
        pets_category_def other_category_def pets_expense_def pets_income_def
        example_expense_def example_income_def)

end
